theory Spec2Isabelle
  imports Complex_Main "HOL-Library.AList"
begin

section \<open>Python values shared by the four pipeline stages\<close>

text \<open>
  A decoded JSON document, as \<^verbatim>\<open>json.load\<close> and \<^verbatim>\<open>resp.json()\<close> return it.  A Python
  \<^verbatim>\<open>dict\<close> is an association list in insertion order (\<open>map_of\<close> reads it,
  \<open>AList.update\<close> writes it: an existing key keeps its place, a new key goes last).  A
  finite double is the real number it denotes; the model does no float arithmetic of its
  own.  \<open>JNull\<close> is Python's \<^verbatim>\<open>None\<close>.
\<close>

datatype json =
    JNull
  | JBool bool
  | JInt int
  | JFloat real
  | JStr string
  | JArr "json list"
  | JObj "(string \<times> json) list"

type_synonym pydict = "(string \<times> json) list"

text \<open>A raised exception: its class name and its message (\<^verbatim>\<open>str(e)\<close>).\<close>

datatype exn = Exn string string

fun str_exn :: "exn \<Rightarrow> string" where
  "str_exn (Exn cls msg) = msg"

text \<open>
  A pandas DataFrame, column-major: the row labels (\<^verbatim>\<open>df.index\<close>) and the labelled
  columns in order.  Every column of a frame built below has one cell per row label.
\<close>

record 'a frame =
  df_index :: "nat list"
  df_cols :: "(string \<times> 'a list) list"

definition columns :: "'a frame \<Rightarrow> string list" where
  "columns df = map fst (df_cols df)"

text \<open>\<^verbatim>\<open>pd.DataFrame(columns=labels)\<close>: the header only, no rows.\<close>

definition empty_frame :: "string list \<Rightarrow> 'a frame" where
  "empty_frame labels = \<lparr>df_index = [], df_cols = map (\<lambda>l. (l, [])) labels\<rparr>"

text \<open>\<^verbatim>\<open>df[name] = col\<close>: an existing label is overwritten in place, a new one is appended.\<close>

definition set_col :: "string \<Rightarrow> 'a list \<Rightarrow> 'a frame \<Rightarrow> 'a frame" where
  "set_col l col df =
     (if l \<in> set (columns df)
      then df\<lparr>df_cols := map (\<lambda>(l', c). if l' = l then (l', col) else (l', c)) (df_cols df)\<rparr>
      else df\<lparr>df_cols := df_cols df @ [(l, col)]\<rparr>)"

text \<open>\<^verbatim>\<open>df[mask]\<close> with a boolean mask: the rows whose mask cell is True, labels kept.\<close>

definition mask_list :: "bool list \<Rightarrow> 'a list \<Rightarrow> 'a list" where
  "mask_list keep xs = map snd (filter fst (zip keep xs))"

definition boolean_index :: "'a frame \<Rightarrow> bool list \<Rightarrow> 'a frame" where
  "boolean_index df keep =
     \<lparr>df_index = mask_list keep (df_index df),
      df_cols = map (\<lambda>(l, c). (l, mask_list keep c)) (df_cols df)\<rparr>"

text \<open>
  \<^verbatim>\<open>df[labels]\<close> with a list of labels: for each requested label, in the order of the
  request, the columns carrying it; \<^verbatim>\<open>KeyError\<close> when a label is no column.
\<close>

definition select_cols :: "'a frame \<Rightarrow> string list \<Rightarrow> exn + 'a frame" where
  "select_cols df labels =
     (if list_all (\<lambda>l. l \<in> set (columns df)) labels
      then Inr (df\<lparr>df_cols := concat (map (\<lambda>l. filter (\<lambda>lc. fst lc = l) (df_cols df)) labels)\<rparr>)
      else Inl (Exn ''KeyError'' ''not in index''))"

text \<open>
  \<^verbatim>\<open>pd.DataFrame(records)\<close> for a list of dicts: one row per record, labelled
  \<open>0, 1, ...\<close>; the columns are the keys in the order of their first appearance; a key a
  record lacks is a missing cell (\<open>None\<close>, pandas' NaN), a JSON null is \<open>Some JNull\<close>.
\<close>

definition first_seen :: "'a list \<Rightarrow> 'a list" where
  "first_seen xs = rev (remdups (rev xs))"

definition DataFrame :: "pydict list \<Rightarrow> json option frame" where
  "DataFrame records =
     \<lparr>df_index = [0..<length records],
      df_cols = map (\<lambda>k. (k, map (\<lambda>r. map_of r k) records))
                  (first_seen (concat (map (map fst) records)))\<rparr>"

section \<open>The configuration object\<close>

text \<open>One entry of the config's \<^verbatim>\<open>mappings\<close>; \<^verbatim>\<open>type\<close> defaults to \<^verbatim>\<open>'string'\<close>.\<close>

record mapping =
  m_source :: string
  m_target :: string
  m_type :: "string option"
  m_format :: "string option"
  m_scale :: "json option"
  m_offset :: "json option"

text \<open>
  The declared schema; an absent \<^verbatim>\<open>unique_keys\<close> or \<^verbatim>\<open>non_null_fields\<close> is the empty
  list (\<^verbatim>\<open>.get(..., [])\<close>), \<^verbatim>\<open>dtypes\<close> is a dict read with \<^verbatim>\<open>[col]\<close>.
\<close>

record schema_cfg =
  required_columns :: "string list"
  dtypes :: "(string \<times> string) list"
  unique_keys :: "string list"
  non_null_fields :: "string list"

text \<open>
  The pagination dict: \<^verbatim>\<open>type\<close> is always read with \<^verbatim>\<open>['type']\<close>; the other keys are
  read with \<^verbatim>\<open>[key]\<close> (a \<^verbatim>\<open>KeyError\<close> when absent) by the strategy that needs them, and
  \<^verbatim>\<open>start_page\<close> with \<^verbatim>\<open>.get('start_page', 1)\<close>.
\<close>

record pagination =
  pg_type :: string
  page_param :: "string option"
  start_page :: "int option"
  cursor_param :: "string option"
  cursor_key :: "string option"
  next_link_key :: "string option"

datatype auth = AuthApiKey string string | AuthBearer string | AuthOther

text \<open>
  The parsed YAML.  \<open>cfg_rpm\<close> is \<^verbatim>\<open>rate_limit.requests_per_minute\<close>: \<open>None\<close> when the
  key (or the whole \<^verbatim>\<open>rate_limit\<close> section) is absent, otherwise the configured value.
  An absent \<^verbatim>\<open>params\<close>, \<^verbatim>\<open>mappings\<close> or \<^verbatim>\<open>unique_keys\<close> is empty, an absent
  \<^verbatim>\<open>auth\<close> is \<^verbatim>\<open>{'type': 'none'}\<close>.
\<close>

record config =
  cfg_name :: string
  cfg_base_url :: string
  cfg_endpoint :: string
  cfg_params :: pydict
  cfg_auth :: auth
  cfg_pagination :: "pagination option"
  cfg_rpm :: "json option"
  cfg_mappings :: "mapping list"
  cfg_schema :: "schema_cfg option"
  cfg_output_table :: "string option"
  cfg_unique_keys :: "string list"

section \<open>Raw pages (\<^verbatim>\<open>_load_rows\<close>)\<close>

text \<open>
  One persisted response file.  \<^verbatim>\<open>_load_rows\<close> extends the rows by a list, appends a
  dict and skips anything else; its rows are \<^verbatim>\<open>List[Dict[str, Any]]\<close>, so the elements
  of a list page are dicts.  The pages come in the order of their sorted file names.
\<close>

datatype page = PageList "pydict list" | PageDict pydict | PageOther

fun page_rows :: "page \<Rightarrow> pydict list" where
  "page_rows (PageList data) = data"
| "page_rows (PageDict data) = [data]"
| "page_rows PageOther = []"

fun load_rows :: "page list \<Rightarrow> pydict list" where
  "load_rows [] = []"
| "load_rows (p # ps) = page_rows p @ load_rows ps"

section \<open>Flattening (\<^verbatim>\<open>pd.json_normalize(rows, sep='.')\<close>)\<close>

text \<open>
  pandas flattens each record on its own: the top-level entries whose value is no dict
  keep their order, then come the leaves of the nested dicts under their dot-joined
  paths (a leaf is any value that is no dict, lists included).
\<close>

definition new_key :: "string \<Rightarrow> string \<Rightarrow> string" where
  "new_key key_string key = (if key_string = [] then key else key_string @ ''.'' @ key)"

fun normalise_json :: "string \<Rightarrow> json \<Rightarrow> pydict \<Rightarrow> pydict"
  and normalise_items :: "string \<Rightarrow> pydict \<Rightarrow> pydict \<Rightarrow> pydict" where
  "normalise_json key_string (JObj kvs) nd = normalise_items key_string kvs nd"
| "normalise_json key_string v nd = AList.update key_string v nd"
| "normalise_items key_string [] nd = nd"
| "normalise_items key_string ((key, v) # rest) nd =
     normalise_items key_string rest (normalise_json (new_key key_string key) v nd)"

fun is_dict :: "json \<Rightarrow> bool" where
  "is_dict (JObj kvs) = True"
| "is_dict v = False"

definition normalise_json_ordered :: "pydict \<Rightarrow> pydict" where
  "normalise_json_ordered data =
     (let top_dict = filter (\<lambda>kv. \<not> is_dict (snd kv)) data;
          nested_dict = normalise_json [] (JObj (filter (\<lambda>kv. is_dict (snd kv)) data)) []
      in fold (\<lambda>kv d. AList.update (fst kv) (snd kv) d) nested_dict top_dict)"

definition json_normalize :: "pydict list \<Rightarrow> json option frame" where
  "json_normalize rows = DataFrame (map normalise_json_ordered rows)"

section \<open>Type conversion (\<^verbatim>\<open>_convert_series\<close>)\<close>

text \<open>
  A converted cell.  \<open>NA\<close> stands for every missing marker of the nullable dtypes
  (\<^verbatim>\<open>pd.NA\<close>, \<^verbatim>\<open>NaT\<close>); \<^verbatim>\<open>isna\<close> is true of it alone.  A timestamp is a count of
  time units since the epoch.
\<close>

datatype tval = NA | TBool bool | TInt int | TFloat real | TStr string | TTime int

fun isna :: "tval \<Rightarrow> bool" where
  "isna NA = True"
| "isna v = False"

text \<open>
  The pandas and Python library behaviours that the repository calls and does not
  define.  The model fixes none of them: a theorem stated of a library \<open>P\<close> holds for
  all of them, and the closed runs name the library they run on.  A
  conversion of a whole column returns a Series on the index of its argument; the model
  keeps that by construction, taking from the library the cell at each position (as a
  function of the whole source column) and laying the cells out over the source's
  positions.
  \<^item> \<open>pd_to_datetime fmt series\<close>:
    \<^verbatim>\<open>pd.to_datetime(series, format=fmt, errors='coerce', utc=True).dt.tz_convert(None)\<close>;
  \<^item> \<open>pd_to_Int64 series\<close>: \<^verbatim>\<open>pd.to_numeric(series, errors='coerce').astype('Int64')\<close>;
  \<^item> \<open>pd_to_Float64 series\<close>: \<^verbatim>\<open>pd.to_numeric(series, errors='coerce').astype('Float64')\<close>;
  \<^item> \<open>pd_element series i\<close>: the Python object that the column pandas builds from the
    raw cells \<open>series\<close> holds at position \<open>i\<close>, for a cell that is not missing.  The
    dtype of the column decides it, so it depends on the whole column: an integer of a
    column that also holds a float or a missing cell is stored, mapped and printed as a
    float;
  \<^item> \<open>pd_isna_list xs\<close>: the truth value of \<^verbatim>\<open>pd.isna(xs)\<close> for a list element \<open>xs\<close>
    (an array, whose truth value NumPy may refuse);
  \<^item> \<open>py_str\<close>, \<open>py_strip\<close>, \<open>py_lower\<close>: \<^verbatim>\<open>str(x)\<close>, \<^verbatim>\<open>s.strip()\<close>, \<^verbatim>\<open>s.lower()\<close>;
  \<^item> \<open>pd_mul ty converted k\<close>, \<open>pd_add ty converted k\<close>: \<^verbatim>\<open>converted * k\<close> and
    \<^verbatim>\<open>converted + k\<close> on a column of the dtype chosen for \<open>ty\<close>; \<open>None\<close> when pandas
    raises.
\<close>

text \<open>
  An element of a built column that is not missing: a Python \<^verbatim>\<open>bool\<close>, \<^verbatim>\<open>int\<close>,
  \<^verbatim>\<open>float\<close>, \<^verbatim>\<open>str\<close> or \<^verbatim>\<open>list\<close> (flattening leaves no dict in a cell).
\<close>

datatype pyobj = PBool bool | PInt int | PFloat real | PStr string | PList "json list"

record pandas =
  pd_to_datetime :: "string option \<Rightarrow> json option list \<Rightarrow> exn + (nat \<Rightarrow> tval)"
  pd_to_Int64 :: "json option list \<Rightarrow> exn + (nat \<Rightarrow> tval)"
  pd_to_Float64 :: "json option list \<Rightarrow> exn + (nat \<Rightarrow> tval)"
  pd_element :: "json option list \<Rightarrow> nat \<Rightarrow> pyobj"
  pd_isna_list :: "json list \<Rightarrow> exn + bool"
  py_str :: "pyobj \<Rightarrow> string"
  py_strip :: "string \<Rightarrow> string"
  py_lower :: "string \<Rightarrow> string"
  pd_mul :: "string \<Rightarrow> tval list \<Rightarrow> json \<Rightarrow> (nat \<Rightarrow> tval) option"
  pd_add :: "string \<Rightarrow> tval list \<Rightarrow> json \<Rightarrow> (nat \<Rightarrow> tval) option"

definition on_index :: "'a list \<Rightarrow> (nat \<Rightarrow> 'b) \<Rightarrow> 'b list" where
  "on_index series f = map f [0..<length series]"

text \<open>Running a fallible function over a list, stopping at the first exception.\<close>

fun map_exn :: "('a \<Rightarrow> exn + 'b) \<Rightarrow> 'a list \<Rightarrow> exn + 'b list" where
  "map_exn f [] = Inr []"
| "map_exn f (x # xs) =
     (case f x of
        Inl e \<Rightarrow> Inl e
      | Inr y \<Rightarrow> (case map_exn f xs of Inl e \<Rightarrow> Inl e | Inr ys \<Rightarrow> Inr (y # ys)))"

definition truthy :: "string list" where
  "truthy = [''true'', ''1'', ''yes'', ''y'', ''t'']"

definition falsy :: "string list" where
  "falsy = [''false'', ''0'', ''no'', ''n'', ''f'']"

text \<open>
  A missing cell of the flattened frame: the key is absent from the row (pandas' NaN) or
  holds a JSON null (\<^verbatim>\<open>None\<close>).  \<^verbatim>\<open>isnull\<close>, \<^verbatim>\<open>isna\<close> and \<^verbatim>\<open>pd.isna\<close> are true of
  both.
\<close>

fun isnull :: "json option \<Rightarrow> bool" where
  "isnull None = True"
| "isnull (Some JNull) = True"
| "isnull (Some v) = False"

text \<open>
  The elements of the column built from the raw cells, as \<^verbatim>\<open>series.map\<close> and
  \<^verbatim>\<open>series.astype\<close> meet them: \<open>None\<close> for a missing cell (building a column neither
  fills a missing cell nor empties another), the object pandas stores otherwise.
\<close>

definition elements :: "pandas \<Rightarrow> json option list \<Rightarrow> pyobj option list" where
  "elements P series =
     map (\<lambda>i. if isnull (series ! i) then None else Some (pd_element P series i))
       [0..<length series]"

text \<open>\<^verbatim>\<open>pd.isna(x)\<close> as the condition of an \<^verbatim>\<open>if\<close>, for one element of the column.\<close>

fun cell_isna :: "pandas \<Rightarrow> pyobj option \<Rightarrow> exn + bool" where
  "cell_isna P None = Inr True"
| "cell_isna P (Some (PList xs)) = pd_isna_list P xs"
| "cell_isna P (Some x) = Inr False"

text \<open>\<^verbatim>\<open>str(x)\<close> of an element: a string is its own text.\<close>

definition cell_str :: "pandas \<Rightarrow> pyobj \<Rightarrow> string" where
  "cell_str P x = (case x of PStr s \<Rightarrow> s | _ \<Rightarrow> py_str P x)"

text \<open>
  The closure \<^verbatim>\<open>to_bool\<close>, which \<^verbatim>\<open>series.map\<close> applies to each element of the column:
  a \<^verbatim>\<open>bool\<close> is returned as it is, a missing element is \<^verbatim>\<open>pd.NA\<close>, and any other
  element is judged by its stripped, lower-cased text.
\<close>

fun to_bool :: "pandas \<Rightarrow> pyobj option \<Rightarrow> exn + tval" where
  "to_bool P (Some (PBool b)) = Inr (TBool b)"
| "to_bool P None = Inr NA"
| "to_bool P (Some x) =
     (case cell_isna P (Some x) of
        Inl e \<Rightarrow> Inl e
      | Inr True \<Rightarrow> Inr NA
      | Inr False \<Rightarrow>
          (let s = py_lower P (py_strip P (cell_str P x))
           in if s \<in> set truthy then Inr (TBool True)
              else if s \<in> set falsy then Inr (TBool False)
              else Inr NA))"

text \<open>
  \<^verbatim>\<open>series.astype('string')\<close>: a missing element stays missing, any other element is its
  text.
\<close>

fun astype_string :: "pandas \<Rightarrow> pyobj option \<Rightarrow> tval" where
  "astype_string P None = NA"
| "astype_string P (Some x) = TStr (cell_str P x)"

text \<open>
  The unit conversion: \<^verbatim>\<open>try: converted = converted * scale\<close>, and on any exception the
  whole column becomes \<^verbatim>\<open>pd.NA\<close>.
\<close>

definition apply_unit ::
  "(string \<Rightarrow> tval list \<Rightarrow> json \<Rightarrow> (nat \<Rightarrow> tval) option) \<Rightarrow> string \<Rightarrow> json option \<Rightarrow>
   tval list \<Rightarrow> tval list" where
  "apply_unit op ty k converted =
     (case k of
        None \<Rightarrow> converted
      | Some c \<Rightarrow>
          (case op ty converted c of
             Some f \<Rightarrow> on_index converted f
           | None \<Rightarrow> replicate (length converted) NA))"

definition convert_series ::
  "pandas \<Rightarrow> json option list \<Rightarrow> string \<Rightarrow> string option \<Rightarrow> json option \<Rightarrow> json option \<Rightarrow>
   exn + tval list" where
  "convert_series P series target_type fmt scale offset =
     (if target_type = ''datetime'' then
        (case pd_to_datetime P fmt series of
           Inl e \<Rightarrow> Inl e
         | Inr f \<Rightarrow> Inr (on_index series f))
      else
        (case (if target_type = ''int'' then
                 (case pd_to_Int64 P series of Inl e \<Rightarrow> Inl e | Inr f \<Rightarrow> Inr (on_index series f))
               else if target_type = ''float'' then
                 (case pd_to_Float64 P series of Inl e \<Rightarrow> Inl e | Inr f \<Rightarrow> Inr (on_index series f))
               else if target_type = ''bool'' then map_exn (to_bool P) (elements P series)
               else Inr (map (astype_string P) (elements P series))) of
           Inl e \<Rightarrow> Inl e
         | Inr converted \<Rightarrow>
             Inr (apply_unit (pd_add P) target_type offset
                    (apply_unit (pd_mul P) target_type scale converted))))"

section \<open>The transformer (\<^verbatim>\<open>transform_data\<close>)\<close>

text \<open>
  \<^verbatim>\<open>df_flat[source] if source in df_flat.columns else pd.Series([pd.NA] * len(df_flat))\<close>
\<close>

definition source_series :: "json option frame \<Rightarrow> string \<Rightarrow> json option list" where
  "source_series df_flat src =
     (case map_of (df_cols df_flat) src of
        Some series \<Rightarrow> series
      | None \<Rightarrow> replicate (length (df_index df_flat)) None)"

definition converted_of :: "pandas \<Rightarrow> json option frame \<Rightarrow> mapping \<Rightarrow> exn + tval list" where
  "converted_of P df_flat m =
     convert_series P (source_series df_flat (m_source m))
       (case m_type m of None \<Rightarrow> ''string'' | Some ty \<Rightarrow> ty)
       (m_format m) (m_scale m) (m_offset m)"

text \<open>The loop over the mappings; the state is \<^verbatim>\<open>out_df\<close> and \<^verbatim>\<open>invalid_mask\<close>.\<close>

fun apply_mappings ::
  "pandas \<Rightarrow> json option frame \<Rightarrow> mapping list \<Rightarrow> tval frame \<times> bool list \<Rightarrow>
   exn + (tval frame \<times> bool list)" where
  "apply_mappings P df_flat [] st = Inr st"
| "apply_mappings P df_flat (m # ms) (out_df, invalid_mask) =
     (case converted_of P df_flat m of
        Inl e \<Rightarrow> Inl e
      | Inr converted \<Rightarrow>
          apply_mappings P df_flat ms
            (set_col (m_target m) converted out_df,
             map (\<lambda>(a, b). a \<or> b) (zip invalid_mask (map isna converted))))"

text \<open>
  The result of a run: the returned frame and the content of
  \<^verbatim>\<open>transform_invalid_rows.json\<close> when the run writes it.  \<open>now_utc\<close> is the reading of
  the clock (\<^verbatim>\<open>datetime.now(timezone.utc)\<close>); the pages are the content of the raw
  directory of the (api, date).
\<close>

definition transform_data ::
  "pandas \<Rightarrow> config \<Rightarrow> page list \<Rightarrow> int \<Rightarrow>
   exn + (tval frame \<times> json option frame option)" where
  "transform_data P config pages now_utc =
     (let api_name = cfg_name config;
          mappings = cfg_mappings config;
          rows = load_rows pages in
      if rows = [] then
        Inr (empty_frame (map m_target mappings @ [''ingestion_timestamp'', ''source'']), None)
      else
        (let df_flat = json_normalize rows;
             out_cols = map m_target mappings;
             out_df = \<lparr>df_index = df_index df_flat, df_cols = []\<rparr>;
             invalid_mask = replicate (length (df_index df_flat)) False
         in case apply_mappings P df_flat mappings (out_df, invalid_mask) of
              Inl e \<Rightarrow> Inl e
            | Inr (out_df, invalid_mask) \<Rightarrow>
                (let invalid_rows_df = boolean_index df_flat invalid_mask;
                     written = (if length (df_index invalid_rows_df) > 0
                                then Some invalid_rows_df else None);
                     clean_df = boolean_index out_df (map Not invalid_mask);
                     clean_df = set_col ''ingestion_timestamp''
                                  (replicate (length (df_index clean_df)) (TTime now_utc)) clean_df;
                     clean_df = set_col ''source''
                                  (replicate (length (df_index clean_df)) (TStr api_name)) clean_df
                 in case select_cols clean_df (out_cols @ [''ingestion_timestamp'', ''source'']) of
                      Inl e \<Rightarrow> Inl e
                    | Inr clean_df \<Rightarrow> Inr (clean_df, written))))"

section \<open>The schema engine (\<^verbatim>\<open>validate_schema\<close>)\<close>

text \<open>
  One record of pandera's \<^verbatim>\<open>failure_cases\<close>: \<open>fc_index\<close> is the cell of its
  \<^verbatim>\<open>index\<close> column when that cell is a Python \<^verbatim>\<open>int\<close> (the test of the source) and
  \<open>None\<close> otherwise (also when the column is absent); \<open>fc_text\<close> stands for the other
  fields.
\<close>

record failure_case =
  fc_index :: "int option"
  fc_text :: string

text \<open>
  What \<^verbatim>\<open>schema.validate(df, lazy=True)\<close> does: it returns the validated frame, raises
  \<^verbatim>\<open>SchemaErrors\<close> with its failure cases, or raises something else.
\<close>

datatype pa_result =
    Validated "json option frame"
  | SchemaErrors "failure_case list"
  | OtherError exn

datatype np_dtype = IntegerDtype | FloatDtype | BoolDtype | DatetimeDtype | ObjectDtype

text \<open>
  The library behaviours the validator relies on and the repository does not define:
  \<^item> \<open>pa_validate cols df\<close>: pandera's validation of the frame against the columns
    \<open>(name, (dtype, nullable))\<close> with \<open>coerce=True\<close>;
  \<^item> \<open>pd_dtype series\<close>: the dtype pandas gives a column of the frame;
  \<^item> \<open>pd_duplicated_any df keys\<close>: \<^verbatim>\<open>df.duplicated(subset=keys).any()\<close>, that is, whether
    some row repeats an earlier one on the key columns.  pandas compares the values of
    the built columns (so the integer 1 and the float 1.0 are equal, and a JSON null
    equals a missing key), and raises for a key that is no column or a cell it cannot
    hash.
\<close>

record pandera =
  pa_validate :: "(string \<times> string \<times> bool) list \<Rightarrow> json option frame \<Rightarrow> pa_result"
  pd_dtype :: "json option list \<Rightarrow> np_dtype"
  pd_duplicated_any :: "json option frame \<Rightarrow> string list \<Rightarrow> exn + bool"

text \<open>
  An entry of the report's \<^verbatim>\<open>errors\<close>: a plain string, a failure-case record, or the
  f-string \<^verbatim>\<open>f"Duplicate values found in unique_keys: {unique_keys}"\<close>, kept with its
  list instead of the list's \<^verbatim>\<open>repr\<close>.
\<close>

datatype verror =
    Message string
  | DuplicateKeys "string list"
  | FailureCase failure_case

record report =
  valid_rows :: int
  invalid_rows :: int
  errors :: "verror list"
  inferred_schema :: "schema_cfg option"

text \<open>The files a validation run writes.\<close>

datatype vfile =
    InvalidRowsJson "json option frame"
  | InferredSchemaYaml string schema_cfg

fun infer_dtype :: "np_dtype \<Rightarrow> string" where
  "infer_dtype IntegerDtype = ''int''"
| "infer_dtype FloatDtype = ''float''"
| "infer_dtype BoolDtype = ''bool''"
| "infer_dtype DatetimeDtype = ''datetime''"
| "infer_dtype ObjectDtype = ''string''"

definition infer_schema :: "pandera \<Rightarrow> json option frame \<Rightarrow> schema_cfg" where
  "infer_schema V df =
     \<lparr>required_columns = columns df,
      dtypes = map (\<lambda>(col, series). (col, infer_dtype (pd_dtype V series))) (df_cols df),
      unique_keys = [],
      non_null_fields = []\<rparr>"

definition dtype_to_pandera :: "string \<Rightarrow> exn + string" where
  "dtype_to_pandera dtype =
     (if dtype \<in> set [''int'', ''float'', ''string'', ''datetime'', ''bool'']
      then Inr dtype else Inl (Exn ''KeyError'' dtype))"

text \<open>The loop that fills the \<^verbatim>\<open>columns\<close> dict of the pandera schema.\<close>

fun build_columns ::
  "schema_cfg \<Rightarrow> string list \<Rightarrow> (string \<times> string \<times> bool) list \<Rightarrow>
   exn + (string \<times> string \<times> bool) list" where
  "build_columns sc [] cols = Inr cols"
| "build_columns sc (col # rest) cols =
     (case map_of (dtypes sc) col of
        None \<Rightarrow> Inl (Exn ''KeyError'' col)
      | Some dtype \<Rightarrow>
          (case dtype_to_pandera dtype of
             Inl e \<Rightarrow> Inl e
           | Inr pa_type \<Rightarrow>
               build_columns sc rest
                 (AList.update col (pa_type, col \<notin> set (non_null_fields sc)) cols)))"

text \<open>\<^verbatim>\<open>df.head(n)\<close> and \<^verbatim>\<open>df.loc[labels]\<close> on a frame whose rows are labelled \<open>0, 1, ...\<close>.\<close>

definition head :: "nat \<Rightarrow> 'a frame \<Rightarrow> 'a frame" where
  "head n df = \<lparr>df_index = take n (df_index df), df_cols = map (\<lambda>(l, c). (l, take n c)) (df_cols df)\<rparr>"

definition loc :: "'a frame \<Rightarrow> int list \<Rightarrow> exn + 'a frame" where
  "loc df labels =
     (if list_all (\<lambda>i. 0 \<le> i \<and> nat i \<in> set (df_index df)) labels
      then Inr \<lparr>df_index = map nat labels,
                df_cols = map (\<lambda>(l, c). (l, map (\<lambda>i. c ! nat i) labels)) (df_cols df)\<rparr>
      else Inl (Exn ''KeyError'' ''not in index''))"

text \<open>\<^verbatim>\<open>df[field].isnull().any()\<close>\<close>

definition isnull_any :: "json option frame \<Rightarrow> string \<Rightarrow> exn + bool" where
  "isnull_any df field =
     (case map_of (df_cols df) field of
        None \<Rightarrow> Inl (Exn ''KeyError'' field)
      | Some series \<Rightarrow> Inr (list_ex isnull series))"

text \<open>The loop over the declared non-null fields, appending to \<^verbatim>\<open>errors\<close>.\<close>

fun non_null_checks :: "json option frame \<Rightarrow> string list \<Rightarrow> verror list \<Rightarrow> exn + verror list" where
  "non_null_checks df [] errs = Inr errs"
| "non_null_checks df (field # rest) errs =
     (case isnull_any df field of
        Inl e \<Rightarrow> Inl e
      | Inr found \<Rightarrow>
          non_null_checks df rest
            (if found then errs @ [Message (''Null values found in non_null_field: '' @ field)]
             else errs))"

text \<open>
  The part of \<^verbatim>\<open>validate_schema\<close> after the threshold test: the unique-key check, then
  the non-null checks, then the report.
\<close>

definition key_checks ::
  "pandera \<Rightarrow> schema_cfg \<Rightarrow> json option frame \<Rightarrow> int \<Rightarrow> int \<Rightarrow> verror list \<Rightarrow>
   vfile list \<Rightarrow> exn + (report \<times> vfile list)" where
  "key_checks V sc df valid invalid errs written =
     (case (if unique_keys sc \<noteq> [] then
              (case pd_duplicated_any V df (unique_keys sc) of
                 Inl e \<Rightarrow> Inl e
               | Inr dup \<Rightarrow> Inr (if dup then errs @ [DuplicateKeys (unique_keys sc)] else errs))
            else Inr errs) of
        Inl e \<Rightarrow> Inl e
      | Inr errs1 \<Rightarrow>
          (case non_null_checks df (non_null_fields sc) errs1 of
             Inl e \<Rightarrow> Inl e
           | Inr errs2 \<Rightarrow>
               Inr (\<lparr>valid_rows = valid, invalid_rows = invalid, errors = errs2,
                     inferred_schema = None\<rparr>, written)))"

text \<open>
  The threshold test \<^verbatim>\<open>len(df) > 0 and invalid_rows / len(df) > 0.05\<close>.  The quotient of the two
  integers and the literal are doubles in the source; they compare as the exact numbers
  do for every frame of fewer than \<open>10^15\<close> rows (the double nearest to \<open>1/20\<close> is the
  literal, and a quotient above \<open>1/20\<close> exceeds it by at least \<open>1 / (20 * len)\<close>).
\<close>

definition over_threshold :: "int \<Rightarrow> nat \<Rightarrow> bool" where
  "over_threshold invalid len = (len > 0 \<and> real_of_int invalid / real len > 5 / 100)"

definition validate_schema ::
  "pandera \<Rightarrow> config \<Rightarrow> page list \<Rightarrow> exn + (report \<times> vfile list)" where
  "validate_schema V config pages =
     (let api_name = cfg_name config;
          all_rows = load_rows pages in
      if all_rows = [] then
        Inr (\<lparr>valid_rows = 0, invalid_rows = 0, errors = [Message ''No data found.''],
              inferred_schema = None\<rparr>, [])
      else
        (let df = DataFrame all_rows in
         case cfg_schema config of
           Some sc \<Rightarrow>
             (case build_columns sc (required_columns sc) [] of
                Inl e \<Rightarrow> Inl e
              | Inr cols \<Rightarrow>
                  (case pa_validate V cols df of
                     Validated validated \<Rightarrow>
                       key_checks V sc df (int (length (df_index validated))) 0 [] []
                   | OtherError e \<Rightarrow> Inl e
                   | SchemaErrors failure_cases \<Rightarrow>
                       (let valid_indices = concat (map (\<lambda>fc. case fc_index fc of
                                                             None \<Rightarrow> [] | Some i \<Rightarrow> [i]) failure_cases);
                            invalid_idx_set = sort (remdups valid_indices);
                            errs = map FailureCase failure_cases
                        in case (if length valid_indices > 0 then
                                   (case loc df invalid_idx_set of
                                      Inl e \<Rightarrow> Inl e
                                    | Inr invalid_df \<Rightarrow>
                                        Inr (int (length (df_index df)) - int (length invalid_idx_set),
                                             int (length invalid_idx_set),
                                             [InvalidRowsJson invalid_df]))
                                 else Inr (0, int (length (df_index df)), [InvalidRowsJson df])) of
                             Inl e \<Rightarrow> Inl e
                           | Inr (valid, invalid, written) \<Rightarrow>
                               if over_threshold invalid (length (df_index df)) then
                                 Inr (\<lparr>valid_rows = valid, invalid_rows = invalid, errors = errs,
                                       inferred_schema = None\<rparr>, written)
                               else key_checks V sc df valid invalid errs written)))
         | None \<Rightarrow>
             (let sample_df = head 100 df;
                  inferred = infer_schema V sample_df
              in Inr (\<lparr>valid_rows = int (length (df_index df)), invalid_rows = 0, errors = [],
                       inferred_schema = Some inferred\<rparr>,
                      [InferredSchemaYaml api_name inferred]))))"

section \<open>The loader (\<^verbatim>\<open>load_to_postgres\<close>)\<close>

text \<open>One row of \<^verbatim>\<open>pipeline_monitor\<close>, as \<^verbatim>\<open>_log_pipeline_run\<close> binds it.\<close>

record run_record =
  rr_run_id :: string
  rr_dag_id :: string
  rr_run_date :: string
  rr_rows_processed :: int
  rr_duration_sec :: real
  rr_status :: string
  rr_error_message :: "string option"

text \<open>
  The statements the loader sends to the database.  A statement is kept by what
  determines it, not by its SQL text:
  \<^item> \<open>CreateMonitorTable\<close>: \<^verbatim>\<open>metadata.create_all(engine, checkfirst=True)\<close>;
  \<^item> \<open>CreateAnalyticsTable t cols pk\<close>: \<^verbatim>\<open>CREATE TABLE IF NOT EXISTS t (cols, PRIMARY KEY (pk))\<close>,
    the primary key clause only when \<open>pk\<close> is not empty;
  \<^item> \<open>InsertOnConflict t cols keys upd df\<close>: \<^verbatim>\<open>INSERT INTO t (cols) VALUES ... ON CONFLICT (keys)\<close>
    with \<^verbatim>\<open>DO UPDATE SET\<close> over \<open>upd\<close>, or \<^verbatim>\<open>DO NOTHING\<close> when \<open>upd\<close> is empty, for the
    records of \<open>df\<close>;
  \<^item> \<open>DeleteRunDate t d\<close>: \<^verbatim>\<open>DELETE FROM t WHERE run_date = d\<close>;
  \<^item> \<open>ToSqlAppend t df\<close>: \<^verbatim>\<open>df.to_sql(t, conn, if_exists='append', index=False, method='multi')\<close>;
  \<^item> \<open>InsertMonitor r\<close>: the \<^verbatim>\<open>INSERT INTO pipeline_monitor\<close> of \<^verbatim>\<open>_log_pipeline_run\<close>.
\<close>

datatype stmt =
    CreateMonitorTable
  | CreateAnalyticsTable string "(string \<times> string) list" "string list"
  | InsertOnConflict string "string list" "string list" "string list" "tval frame"
  | DeleteRunDate string string
  | ToSqlAppend string "tval frame"
  | InsertMonitor run_record

text \<open>
  The trace of a run: every statement sent, in order, with what the database answered
  (the row count, or the exception it raised).  Each statement runs in a transaction of
  its block, committed when the block ends and rolled back when it raises.
\<close>

type_synonym trace = "(stmt \<times> (exn + int)) list"

text \<open>
  The database and its driver, which the repository does not define: whether
  \<^verbatim>\<open>create_engine\<close> raises, the answer to a statement given everything sent before, and
  \<^verbatim>\<open>str(dtype)\<close> for a column of the typed frame.
\<close>

record database =
  create_engine :: "exn option"
  execute :: "trace \<Rightarrow> stmt \<Rightarrow> exn + int"
  dtype_str :: "string \<Rightarrow> tval list \<Rightarrow> string"

definition exec :: "database \<Rightarrow> trace \<Rightarrow> stmt \<Rightarrow> (exn + int) \<times> trace" where
  "exec D tr s = (let r = execute D tr s in (r, tr @ [(s, r)]))"

text \<open>\<^verbatim>\<open>needle in haystack\<close> on strings.\<close>

fun starts_with :: "string \<Rightarrow> string \<Rightarrow> bool" where
  "starts_with [] s = True"
| "starts_with (c # cs) [] = False"
| "starts_with (c # cs) (d # ds) = (c = d \<and> starts_with cs ds)"

fun contains :: "string \<Rightarrow> string \<Rightarrow> bool" where
  "contains needle [] = (needle = [])"
| "contains needle (c # cs) = (starts_with needle (c # cs) \<or> contains needle cs)"

definition sql_type :: "string \<Rightarrow> string" where
  "sql_type dtype =
     (if contains ''int'' dtype then ''INTEGER''
      else if contains ''float'' dtype then ''DOUBLE PRECISION''
      else if contains ''datetime'' dtype then ''TIMESTAMP''
      else ''VARCHAR(500)'')"

definition create_pipeline_monitor_table :: "database \<Rightarrow> trace \<Rightarrow> (exn + int) \<times> trace" where
  "create_pipeline_monitor_table D tr = exec D tr CreateMonitorTable"

definition create_analytics_table ::
  "database \<Rightarrow> trace \<Rightarrow> string \<Rightarrow> tval frame \<Rightarrow> string list \<Rightarrow> (exn + int) \<times> trace" where
  "create_analytics_table D tr table_name df keys =
     exec D tr
       (CreateAnalyticsTable table_name
          (map (\<lambda>(col, series). (col, sql_type (dtype_str D col series))) (df_cols df)) keys)"

text \<open>\<^verbatim>\<open>df.empty\<close>: some axis has length 0.\<close>

definition df_empty :: "'a frame \<Rightarrow> bool" where
  "df_empty df = (df_index df = [] \<or> df_cols df = [])"

definition upsert_data ::
  "database \<Rightarrow> trace \<Rightarrow> string \<Rightarrow> tval frame \<Rightarrow> string list \<Rightarrow> string \<Rightarrow>
   (exn + int) \<times> trace" where
  "upsert_data D tr table_name df keys run_date =
     (if df_empty df then (Inr 0, tr)
      else if keys \<noteq> [] then
        exec D tr
          (InsertOnConflict table_name (columns df) keys
             (filter (\<lambda>col. col \<notin> set keys) (columns df)) df)
      else
        (case exec D tr (DeleteRunDate table_name run_date) of
           (Inl e, tr1) \<Rightarrow> (Inl e, tr1)
         | (Inr n, tr1) \<Rightarrow>
             (case exec D tr1 (ToSqlAppend table_name df) of
                (Inl e, tr2) \<Rightarrow> (Inl e, tr2)
              | (Inr k, tr2) \<Rightarrow> (Inr (int (length (df_index df))), tr2))))"

definition log_pipeline_run :: "database \<Rightarrow> trace \<Rightarrow> run_record \<Rightarrow> (exn + int) \<times> trace" where
  "log_pipeline_run D tr r = exec D tr (InsertMonitor r)"

text \<open>The dict a successful load returns.\<close>

record load_result =
  lr_run_id :: string
  lr_rows_processed :: int
  lr_duration_sec :: real
  lr_status :: string

text \<open>
  The readings of \<^verbatim>\<open>time.time()\<close>: at the start, where the \<^verbatim>\<open>try\<close> block computes its
  duration, and in the \<^verbatim>\<open>except\<close> handler.
\<close>

record clock =
  t_start :: real
  t_done :: real
  t_failed :: real

text \<open>
  The \<^verbatim>\<open>try\<close> block from \<^verbatim>\<open>_create_pipeline_monitor_table(engine)\<close> on, that is, once
  the config is loaded and the engine exists.
\<close>

definition load_steps ::
  "database \<Rightarrow> pandas \<Rightarrow> config \<Rightarrow> page list \<Rightarrow> int \<Rightarrow> string \<Rightarrow> string \<Rightarrow> clock \<Rightarrow> trace \<Rightarrow>
   (exn + load_result) \<times> trace" where
  "load_steps D P config pages now_utc execution_date run_id clk tr0 =
     (let api_name = cfg_name config;
          output_table = (case cfg_output_table config of
                            Some t \<Rightarrow> t | None \<Rightarrow> api_name @ ''_events'');
          keys = cfg_unique_keys config
      in case create_pipeline_monitor_table D tr0 of
           (Inl e, tr1) \<Rightarrow> (Inl e, tr1)
         | (Inr n, tr1) \<Rightarrow>
             (case transform_data P config pages now_utc of
                Inl e \<Rightarrow> (Inl e, tr1)
              | Inr (df, written) \<Rightarrow>
                  if df_empty df then
                    (let duration = t_done clk - t_start clk
                     in case log_pipeline_run D tr1
                               \<lparr>rr_run_id = run_id, rr_dag_id = api_name,
                                rr_run_date = execution_date, rr_rows_processed = 0,
                                rr_duration_sec = duration, rr_status = ''success'',
                                rr_error_message = None\<rparr> of
                          (Inl e, tr2) \<Rightarrow> (Inl e, tr2)
                        | (Inr k, tr2) \<Rightarrow>
                            (Inr \<lparr>lr_run_id = run_id, lr_rows_processed = 0,
                                  lr_duration_sec = duration, lr_status = ''success''\<rparr>, tr2))
                  else
                    (case create_analytics_table D tr1 output_table df keys of
                       (Inl e, tr2) \<Rightarrow> (Inl e, tr2)
                     | (Inr k, tr2) \<Rightarrow>
                         (let df1 = (if keys = [] \<and> ''run_date'' \<notin> set (columns df)
                                     then set_col ''run_date''
                                            (replicate (length (df_index df)) (TStr execution_date)) df
                                     else df)
                          in case upsert_data D tr2 output_table df1 keys execution_date of
                               (Inl e, tr3) \<Rightarrow> (Inl e, tr3)
                             | (Inr rows_processed, tr3) \<Rightarrow>
                                 (let duration = t_done clk - t_start clk
                                  in case log_pipeline_run D tr3
                                            \<lparr>rr_run_id = run_id, rr_dag_id = api_name,
                                             rr_run_date = execution_date,
                                             rr_rows_processed = rows_processed,
                                             rr_duration_sec = duration, rr_status = ''success'',
                                             rr_error_message = None\<rparr> of
                                       (Inl e, tr4) \<Rightarrow> (Inl e, tr4)
                                     | (Inr k, tr4) \<Rightarrow>
                                         (Inr \<lparr>lr_run_id = run_id,
                                               lr_rows_processed = rows_processed,
                                               lr_duration_sec = duration,
                                               lr_status = ''success''\<rparr>, tr4))))))"

text \<open>
  The \<^verbatim>\<open>except Exception\<close> handler, entered with the engine bound: it tries to log the
  failed run, passes over a failure of that, and re-raises the exception it caught.
\<close>

definition on_failure ::
  "database \<Rightarrow> config \<Rightarrow> string \<Rightarrow> string \<Rightarrow> clock \<Rightarrow> exn \<Rightarrow> trace \<Rightarrow>
   (exn + load_result) \<times> trace" where
  "on_failure D config execution_date run_id clk e tr =
     (let duration = t_failed clk - t_start clk;
          error_msg = str_exn e
      in case log_pipeline_run D tr
                \<lparr>rr_run_id = run_id, rr_dag_id = cfg_name config, rr_run_date = execution_date,
                 rr_rows_processed = 0, rr_duration_sec = duration, rr_status = ''failed'',
                 rr_error_message = Some error_msg\<rparr> of
           (Inl e', tr') \<Rightarrow> (Inl e, tr')
         | (Inr k, tr') \<Rightarrow> (Inl e, tr'))"

text \<open>
  \<open>loaded\<close> is the outcome of opening and parsing the config file.  A failure there, or
  of \<^verbatim>\<open>create_engine\<close>, reaches the handler with no engine in \<^verbatim>\<open>locals()\<close>: nothing is
  logged and the exception is re-raised.
\<close>

definition load_to_postgres ::
  "database \<Rightarrow> pandas \<Rightarrow> exn + config \<Rightarrow> page list \<Rightarrow> int \<Rightarrow> string \<Rightarrow> string \<Rightarrow> clock \<Rightarrow>
   trace \<Rightarrow> (exn + load_result) \<times> trace" where
  "load_to_postgres D P loaded pages now_utc execution_date run_id clk tr0 =
     (case loaded of
        Inl e \<Rightarrow> (Inl e, tr0)
      | Inr config \<Rightarrow>
          (case create_engine D of
             Some e \<Rightarrow> (Inl e, tr0)
           | None \<Rightarrow>
               (case load_steps D P config pages now_utc execution_date run_id clk tr0 of
                  (Inr result, tr) \<Rightarrow> (Inr result, tr)
                | (Inl e, tr) \<Rightarrow> on_failure D config execution_date run_id clk e tr)))"

section \<open>The fetcher (\<^verbatim>\<open>extract_api\<close>)\<close>

text \<open>Python truthiness (\<^verbatim>\<open>bool(x)\<close>, \<^verbatim>\<open>if x\<close>, \<^verbatim>\<open>not x\<close>) of a decoded JSON value.\<close>

fun py_truthy :: "json \<Rightarrow> bool" where
  "py_truthy JNull = False"
| "py_truthy (JBool b) = b"
| "py_truthy (JInt i) = (i \<noteq> 0)"
| "py_truthy (JFloat r) = (r \<noteq> 0)"
| "py_truthy (JStr s) = (s \<noteq> [])"
| "py_truthy (JArr xs) = (xs \<noteq> [])"
| "py_truthy (JObj kvs) = (kvs \<noteq> [])"

text \<open>
  \<^verbatim>\<open>x.get(key)\<close> and \<^verbatim>\<open>x.get(key, None)\<close>: the value, \<^verbatim>\<open>None\<close> for a key a dict lacks,
  \<^verbatim>\<open>AttributeError\<close> for anything that is no dict.
\<close>

fun py_get :: "json \<Rightarrow> string \<Rightarrow> exn + json" where
  "py_get (JObj kvs) key = Inr (case map_of kvs key of None \<Rightarrow> JNull | Some v \<Rightarrow> v)"
| "py_get v key = Inl (Exn ''AttributeError'' ''object has no attribute get'')"

text \<open>\<^verbatim>\<open>s.split('.')\<close>: the pieces between the dots, one piece when there is no dot.\<close>

fun split_dot :: "string \<Rightarrow> string list" where
  "split_dot [] = [[]]"
| "split_dot (c # cs) =
     (if c = CHR ''.'' then [] # split_dot cs
      else (case split_dot cs of
              [] \<Rightarrow> [[c]]
            | piece # pieces \<Rightarrow> (c # piece) # pieces))"

text \<open>
  The walk along the dotted \<^verbatim>\<open>next_link_key\<close>: it stops with \<^verbatim>\<open>None\<close> at the first
  segment whose value is \<^verbatim>\<open>None\<close> (a missing key or a JSON null).
\<close>

fun walk_link :: "json \<Rightarrow> string list \<Rightarrow> exn + json" where
  "walk_link next_link [] = Inr next_link"
| "walk_link next_link (key # keys) =
     (case py_get next_link key of
        Inl e \<Rightarrow> Inl e
      | Inr JNull \<Rightarrow> Inr JNull
      | Inr v \<Rightarrow> walk_link v keys)"

text \<open>\<^verbatim>\<open>s.rstrip('/')\<close>\<close>

definition rstrip_slash :: "string \<Rightarrow> string" where
  "rstrip_slash s = rev (dropWhile (\<lambda>c. c = CHR ''/'') (rev s))"

text \<open>\<^verbatim>\<open>f"response_{response_idx:03d}.json"\<close>: decimal, zero-padded to three digits.\<close>

fun decimal :: "nat \<Rightarrow> string" where
  "decimal n =
     (if n < 10 then [char_of (48 + n)]
      else decimal (n div 10) @ [char_of (48 + n mod 10)])"

definition response_name :: "nat \<Rightarrow> string" where
  "response_name idx =
     ''response_'' @ replicate (3 - length (decimal idx)) (CHR ''0'') @ decimal idx @ ''.json''"

text \<open>
  The rate limit: \<^verbatim>\<open>requests_per_minute = rate_limit.get('requests_per_minute', 60)\<close>, then
  \<^verbatim>\<open>sleep_time = 60.0 / requests_per_minute if requests_per_minute else 0\<close>.  The quotient
  is the exact one (the source's is its nearest double); dividing by a string or a
  container is a \<^verbatim>\<open>TypeError\<close>.
\<close>

definition requests_per_minute :: "config \<Rightarrow> json" where
  "requests_per_minute config = (case cfg_rpm config of None \<Rightarrow> JInt 60 | Some v \<Rightarrow> v)"

definition sleep_time :: "config \<Rightarrow> exn + real" where
  "sleep_time config =
     (let rpm = requests_per_minute config in
      if py_truthy rpm then
        (case rpm of
           JInt n \<Rightarrow> Inr (60 / real_of_int n)
         | JFloat r \<Rightarrow> Inr (60 / r)
         | JBool b \<Rightarrow> Inr 60
         | _ \<Rightarrow> Inl (Exn ''TypeError'' ''unsupported operand type(s) for /''))
      else Inr 0)"

text \<open>
  The remote side, which the repository does not define: the credential store, and the
  answer to the \<open>n\<close>-th call of \<^verbatim>\<open>session.get(url, params, headers, timeout=30)\<close> (the
  retries of the session included).  An answer is an exception of the request, or a
  status code with what \<^verbatim>\<open>resp.json()\<close> gives (the decoded body, or an exception).
\<close>

datatype reply = RequestFailed | Response nat "exn + json"

type_synonym headers = "(string \<times> string option) list"

record remote =
  credential :: "auth \<Rightarrow> exn + string option"
  session_get :: "nat \<Rightarrow> json \<Rightarrow> pydict \<Rightarrow> headers \<Rightarrow> reply"

text \<open>
  The headers: the API key under its header name, or a bearer token formatted into
  \<^verbatim>\<open>f'Bearer {token}'\<close> (a token that is \<^verbatim>\<open>None\<close> prints as \<^verbatim>\<open>None\<close>).
\<close>

definition auth_headers :: "remote \<Rightarrow> auth \<Rightarrow> exn + headers" where
  "auth_headers R a =
     (case a of
        AuthApiKey key_name conn_id \<Rightarrow>
          (case credential R a of Inl e \<Rightarrow> Inl e | Inr api_key \<Rightarrow> Inr [(key_name, api_key)])
      | AuthBearer conn_id \<Rightarrow>
          (case credential R a of
             Inl e \<Rightarrow> Inl e
           | Inr token \<Rightarrow>
               Inr [(''Authorization'',
                     Some (''Bearer '' @ (case token of None \<Rightarrow> ''None'' | Some t \<Rightarrow> t)))])
      | AuthOther \<Rightarrow> Inr [])"

text \<open>
  The variables of the loop, with what the run has done so far: the files written
  (path components and dumped document), the sleeps taken and the number of requests
  sent.  A path is the list of the components given to \<^verbatim>\<open>os.path.join\<close>.
\<close>

record fetch_state =
  saved_files :: "string list list"
  page_num :: int
  cursor :: json
  has_more :: bool
  response_idx :: nat
  url :: json
  written_files :: "(string list \<times> json) list"
  sleeps :: "real list"
  requests :: nat

text \<open>
  How a pass of the loop body ends: at the loop's test again, at a \<^verbatim>\<open>break\<close>, or with
  an exception that leaves \<^verbatim>\<open>extract_api\<close>; each with the state reached.
\<close>

datatype flow = Next fetch_state | Break fetch_state | Raise exn fetch_state

text \<open>A read of a required key of the pagination dict.\<close>

definition required :: "string \<Rightarrow> 'a option \<Rightarrow> exn + 'a" where
  "required key v = (case v of None \<Rightarrow> Inl (Exn ''KeyError'' key) | Some x \<Rightarrow> Inr x)"

definition request_params :: "config \<Rightarrow> fetch_state \<Rightarrow> exn + pydict" where
  "request_params config st =
     (let req_params = cfg_params config in
      case cfg_pagination config of
        None \<Rightarrow> Inr req_params
      | Some pg \<Rightarrow>
          if pg_type pg = ''page'' then
            (case required ''page_param'' (page_param pg) of
               Inl e \<Rightarrow> Inl e
             | Inr k \<Rightarrow> Inr (AList.update k (JInt (page_num st)) req_params))
          else if pg_type pg = ''cursor'' \<and> py_truthy (cursor st) then
            (case required ''cursor_param'' (cursor_param pg) of
               Inl e \<Rightarrow> Inl e
             | Inr k \<Rightarrow> Inr (AList.update k (cursor st) req_params))
          else Inr req_params)"

text \<open>Writing one response file and recording its path.\<close>

definition save_response :: "string list \<Rightarrow> json \<Rightarrow> fetch_state \<Rightarrow> fetch_state" where
  "save_response out_dir data st =
     (let out_path = out_dir @ [response_name (response_idx st)]
      in st\<lparr>written_files := written_files st @ [(out_path, data)],
            saved_files := saved_files st @ [out_path],
            response_idx := response_idx st + 1\<rparr>)"

text \<open>What the loop body does with the decoded body of a response below 400.\<close>

definition handle_data :: "config \<Rightarrow> string list \<Rightarrow> json \<Rightarrow> fetch_state \<Rightarrow> flow" where
  "handle_data config out_dir data st =
     (case cfg_pagination config of
        None \<Rightarrow> Next ((save_response out_dir data st)\<lparr>has_more := False\<rparr>)
      | Some pg \<Rightarrow>
          if pg_type pg = ''page'' then
            (if \<not> py_truthy data \<or> (case data of JArr xs \<Rightarrow> length xs = 0 | _ \<Rightarrow> False)
             then Break (st\<lparr>has_more := False\<rparr>)
             else Next ((save_response out_dir data st)\<lparr>page_num := page_num st + 1\<rparr>))
          else
            (let st1 = save_response out_dir data st in
             if pg_type pg = ''cursor'' then
               (if \<not> is_dict data then
                  Raise (Exn ''AttributeError'' ''object has no attribute get'') st1
                else
                  (case required ''cursor_key'' (cursor_key pg) of
                     Inl e \<Rightarrow> Raise e st1
                   | Inr k \<Rightarrow>
                       (case py_get data k of
                          Inl e \<Rightarrow> Raise e st1
                        | Inr c \<Rightarrow> Next (st1\<lparr>cursor := c, has_more := py_truthy c\<rparr>))))
             else if pg_type pg = ''next_link'' then
               (case required ''next_link_key'' (next_link_key pg) of
                  Inl e \<Rightarrow> Raise e st1
                | Inr k \<Rightarrow>
                    (case walk_link data (split_dot k) of
                       Inl e \<Rightarrow> Raise e st1
                     | Inr next_link \<Rightarrow>
                         if py_truthy next_link then Next (st1\<lparr>url := next_link\<rparr>)
                         else Next (st1\<lparr>has_more := False\<rparr>)))
             else Next (st1\<lparr>has_more := False\<rparr>)))"

text \<open>\<^verbatim>\<open>if has_more and sleep_time > 0: time.sleep(sleep_time)\<close>\<close>

definition rate_limit :: "real \<Rightarrow> fetch_state \<Rightarrow> fetch_state" where
  "rate_limit secs st =
     (if has_more st \<and> secs > 0 then st\<lparr>sleeps := sleeps st @ [secs]\<rparr> else st)"

text \<open>One pass of the body of \<^verbatim>\<open>while has_more\<close>.\<close>

definition iteration ::
  "remote \<Rightarrow> config \<Rightarrow> headers \<Rightarrow> string list \<Rightarrow> real \<Rightarrow> fetch_state \<Rightarrow> flow" where
  "iteration R config hdrs out_dir secs st =
     (case request_params config st of
        Inl e \<Rightarrow> Raise e st
      | Inr req_params \<Rightarrow>
          (let st1 = st\<lparr>requests := requests st + 1\<rparr> in
           case session_get R (requests st) (url st) req_params hdrs of
             RequestFailed \<Rightarrow> Break st1
           | Response status_code body \<Rightarrow>
               if status_code = 401 then Break st1
               else if status_code \<ge> 400 then Break st1
               else
                 (case body of
                    Inl e \<Rightarrow> Raise e st1
                  | Inr data \<Rightarrow>
                      (case handle_data config out_dir data st1 of
                         Next st2 \<Rightarrow> Next (rate_limit secs st2)
                       | Break st2 \<Rightarrow> Break st2
                       | Raise e st2 \<Rightarrow> Raise e st2))))"

text \<open>
  The loop \<^verbatim>\<open>while has_more\<close>.  The remote side may answer with data forever, so the
  loop takes fuel, one unit per test of its condition; \<open>None\<close> is a run that is still
  going when the fuel is spent.
\<close>

fun fetch_loop ::
  "nat \<Rightarrow> (fetch_state \<Rightarrow> flow) \<Rightarrow> fetch_state \<Rightarrow> (exn \<times> fetch_state + fetch_state) option" where
  "fetch_loop 0 body st = None"
| "fetch_loop (Suc fuel) body st =
     (if has_more st then
        (case body st of
           Raise e st' \<Rightarrow> Some (Inl (e, st'))
         | Break st' \<Rightarrow> Some (Inr st')
         | Next st' \<Rightarrow> fetch_loop fuel body st')
      else Some (Inr st))"

text \<open>
  \<open>execution_date\<close> is the argument, \<open>today\<close> the date the source formats from
  \<^verbatim>\<open>datetime.now()\<close> when the argument is absent or empty.  The result is the final state
  of the loop; \<^verbatim>\<open>extract_api\<close> returns its \<open>saved_files\<close>, or raises the exception
  given with the state.
\<close>

definition extract_api ::
  "nat \<Rightarrow> remote \<Rightarrow> config \<Rightarrow> string option \<Rightarrow> string \<Rightarrow>
   (exn \<times> fetch_state + fetch_state) option" where
  "extract_api fuel R config execution_date today =
     (let st0 =
        \<lparr>saved_files = [],
         page_num = (case cfg_pagination config of
                       None \<Rightarrow> 1
                     | Some pg \<Rightarrow> (case start_page pg of None \<Rightarrow> 1 | Some n \<Rightarrow> n)),
         cursor = JNull,
         has_more = True,
         response_idx = 1,
         url = JStr (rstrip_slash (cfg_base_url config) @ cfg_endpoint config),
         written_files = [],
         sleeps = [],
         requests = 0\<rparr>
      in case sleep_time config of
           Inl e \<Rightarrow> Some (Inl (e, st0))
         | Inr secs \<Rightarrow>
             (let date = (case execution_date of
                            None \<Rightarrow> today
                          | Some d \<Rightarrow> if d = [] then today else d);
                  out_dir = [''data'', ''raw'', cfg_name config, date]
              in case auth_headers R (cfg_auth config) of
                   Inl e \<Rightarrow> Some (Inl (e, st0))
                 | Inr hdrs \<Rightarrow> fetch_loop fuel (iteration R config hdrs out_dir secs) st0))"

section \<open>Vocabulary of the statements\<close>

text \<open>
  The clean frame of \<^verbatim>\<open>transform_data\<close> once the two metadata columns are set, before
  the final selection of the columns.
\<close>

definition stamped :: "config \<Rightarrow> int \<Rightarrow> tval frame \<Rightarrow> bool list \<Rightarrow> tval frame" where
  "stamped config now_utc out_df msk =
     (let c0 = boolean_index out_df (map Not msk);
          c1 = set_col ''ingestion_timestamp''
                 (replicate (length (df_index c0)) (TTime now_utc)) c0
      in set_col ''source'' (replicate (length (df_index c1)) (TStr (cfg_name config))) c1)"

text \<open>A frame with the cells of its \<^verbatim>\<open>ingestion_timestamp\<close> columns blanked.\<close>

definition without_clock :: "tval frame \<Rightarrow> tval frame" where
  "without_clock df =
     df\<lparr>df_cols := map (\<lambda>lc. if fst lc = ''ingestion_timestamp''
                              then (fst lc, map (\<lambda>v. NA) (snd lc)) else lc) (df_cols df)\<rparr>"


text \<open>The rows of a frame: each row label with the labelled cells of the row.\<close>

definition frame_rows :: "'a frame \<Rightarrow> (nat \<times> (string \<times> 'a) list) list" where
  "frame_rows df =
     map (\<lambda>p. (df_index df ! p, map (\<lambda>lc. (fst lc, snd lc ! p)) (df_cols df)))
       [0..<length (df_index df)]"

text \<open>The rows of the invalid-rows file of a run; none when the run writes no file.\<close>

definition written_rows :: "'a frame option \<Rightarrow> (nat \<times> (string \<times> 'a) list) list" where
  "written_rows written = (case written of None \<Rightarrow> [] | Some df \<Rightarrow> frame_rows df)"

text \<open>The type a mapping converts to.\<close>

definition target_type :: "mapping \<Rightarrow> string" where
  "target_type m = (case m_type m of None \<Rightarrow> ''string'' | Some ty \<Rightarrow> ty)"

text \<open>A statement that creates or writes the destination table, not the run ledger.\<close>

fun is_data_stmt :: "stmt \<Rightarrow> bool" where
  "is_data_stmt CreateMonitorTable = False"
| "is_data_stmt (InsertMonitor r) = False"
| "is_data_stmt s = True"

text \<open>A statement of the trace that the database carried out.\<close>

fun succeeded :: "stmt \<times> (exn + int) \<Rightarrow> bool" where
  "succeeded (s, Inr n) = True"
| "succeeded (s, Inl e) = False"

text \<open>The ledger entry of a failed run, as the handler binds it.\<close>

definition failed_entry :: "config \<Rightarrow> string \<Rightarrow> string \<Rightarrow> clock \<Rightarrow> exn \<Rightarrow> run_record" where
  "failed_entry config execution_date run_id clk e =
     \<lparr>rr_run_id = run_id, rr_dag_id = cfg_name config, rr_run_date = execution_date,
      rr_rows_processed = 0, rr_duration_sec = t_failed clk - t_start clk,
      rr_status = ''failed'', rr_error_message = Some (str_exn e)\<rparr>"

text \<open>The ledger entry of a successful run.\<close>

definition success_entry :: "config \<Rightarrow> string \<Rightarrow> string \<Rightarrow> clock \<Rightarrow> int \<Rightarrow> run_record" where
  "success_entry config execution_date run_id clk rows =
     \<lparr>rr_run_id = run_id, rr_dag_id = cfg_name config, rr_run_date = execution_date,
      rr_rows_processed = rows, rr_duration_sec = t_done clk - t_start clk,
      rr_status = ''success'', rr_error_message = None\<rparr>"







text \<open>The final state of a run that returned or raised; none for a run out of fuel.\<close>

fun final_state :: "(exn \<times> fetch_state + fetch_state) option \<Rightarrow> fetch_state option" where
  "final_state None = None"
| "final_state (Some (Inl (e, st))) = Some st"
| "final_state (Some (Inr st)) = Some st"

text \<open>The strategy of a config, by the \<^verbatim>\<open>type\<close> of its pagination dict.\<close>

definition strategy :: "config \<Rightarrow> string" where
  "strategy config = (case cfg_pagination config of None \<Rightarrow> ''none'' | Some pg \<Rightarrow> pg_type pg)"

text \<open>
  The state of the page strategy after \<open>k\<close> pages were fetched and saved: \<open>body j\<close> is
  the document of the \<open>j\<close>-th response, \<open>k0\<close> the sleeps taken so far.
\<close>

definition page_state ::
  "fetch_state \<Rightarrow> string list \<Rightarrow> real \<Rightarrow> (nat \<Rightarrow> json) \<Rightarrow> nat \<Rightarrow> fetch_state" where
  "page_state st0 out_dir secs body k =
     st0\<lparr>saved_files := saved_files st0 @
                          map (\<lambda>j. out_dir @ [response_name (response_idx st0 + j)]) [0..<k],
         page_num := page_num st0 + int k,
         response_idx := response_idx st0 + k,
         written_files := written_files st0 @
                            map (\<lambda>j. (out_dir @ [response_name (response_idx st0 + j)],
                                      body (requests st0 + j))) [0..<k],
         sleeps := sleeps st0 @ (if 0 < secs then replicate k secs else []),
         requests := requests st0 + k\<rparr>"

text \<open>
  The request of a pass of the loop is sent and answered below 400 with a body that
  decodes to \<open>data\<close>.
\<close>

definition answered :: "remote \<Rightarrow> config \<Rightarrow> headers \<Rightarrow> fetch_state \<Rightarrow> json \<Rightarrow> bool" where
  "answered R config hdrs st data =
     (case request_params config st of
        Inl e \<Rightarrow> False
      | Inr req_params \<Rightarrow>
          (case session_get R (requests st) (url st) req_params hdrs of
             RequestFailed \<Rightarrow> False
           | Response status_code body \<Rightarrow>
               status_code < 400 \<and> body = Inr data))"



section \<open>Concrete inputs\<close>

text \<open>
  The inputs of the closed theorems below, and the library behaviours on them.  The
  libraries given here follow pandas and pandera on the documents used below: JSON
  strings, booleans, missing cells and numbers within \<open>int64\<close>, numeric strings written as
  plain decimal integers, no datetime text, and no mapping with a scale or an offset.
\<close>

definition str_int :: "int \<Rightarrow> string" where
  "str_int i = (if i < 0 then ''-'' @ decimal (nat (- i)) else decimal (nat i))"

definition digit_of :: "char \<Rightarrow> nat option" where
  "digit_of c =
     (let n = (of_char c :: nat) in if 48 \<le> n \<and> n \<le> 57 then Some (n - 48) else None)"

fun parse_digits :: "string \<Rightarrow> nat \<Rightarrow> nat option" where
  "parse_digits [] acc = Some acc"
| "parse_digits (c # cs) acc =
     (case digit_of c of None \<Rightarrow> None | Some d \<Rightarrow> parse_digits cs (10 * acc + d))"

definition parse_int :: "string \<Rightarrow> int option" where
  "parse_int s =
     (case s of
        [] \<Rightarrow> None
      | c # cs \<Rightarrow>
          if c = CHR ''-'' then
            (if cs = [] then None else map_option (\<lambda>n. - int n) (parse_digits cs 0))
          else map_option int (parse_digits s 0))"

text \<open>A float cell with a fractional part, which no \<^verbatim>\<open>Int64\<close> can hold.\<close>

fun is_fraction :: "json option \<Rightarrow> bool" where
  "is_fraction (Some (JFloat r)) = (real_of_int \<lfloor>r\<rfloor> \<noteq> r)"
| "is_fraction v = False"

text \<open>
  \<^verbatim>\<open>pd.to_numeric(series, errors='coerce')\<close> cell by cell: a number is itself, a boolean
  is 0 or 1, a decimal string is its number, anything else is NaN.
\<close>

fun to_numeric :: "json option \<Rightarrow> real option" where
  "to_numeric (Some (JInt n)) = Some (real_of_int n)"
| "to_numeric (Some (JFloat r)) = Some r"
| "to_numeric (Some (JBool b)) = Some (if b then 1 else 0)"
| "to_numeric (Some (JStr s)) = map_option real_of_int (parse_int s)"
| "to_numeric v = None"

text \<open>
  The dtype rule of a built column, as far as it shows in the elements: a column whose
  cells are all numbers or missing, with a float or a missing cell among them, is
  \<^verbatim>\<open>float64\<close>, and its integers are floats.
\<close>

fun is_number_or_null :: "json option \<Rightarrow> bool" where
  "is_number_or_null (Some (JInt n)) = True"
| "is_number_or_null (Some (JFloat r)) = True"
| "is_number_or_null v = isnull v"

fun is_float_or_null :: "json option \<Rightarrow> bool" where
  "is_float_or_null (Some (JFloat r)) = True"
| "is_float_or_null v = isnull v"

definition float_column :: "json option list \<Rightarrow> bool" where
  "float_column series = (list_all is_number_or_null series \<and> list_ex is_float_or_null series)"

definition test_element :: "json option list \<Rightarrow> nat \<Rightarrow> pyobj" where
  "test_element series i =
     (case series ! i of
        Some (JInt n) \<Rightarrow> if float_column series then PFloat (real_of_int n) else PInt n
      | Some (JFloat r) \<Rightarrow> PFloat r
      | Some (JBool b) \<Rightarrow> PBool b
      | Some (JStr s) \<Rightarrow> PStr s
      | Some (JArr xs) \<Rightarrow> PList xs
      | _ \<Rightarrow> PStr [])"

text \<open>
  \<^verbatim>\<open>str(x)\<close> of the elements that the runs below print: a whole float prints as in
  \<^verbatim>\<open>1.0\<close>; the digits of a fraction and of a list's elements are left out.
\<close>

definition test_str :: "pyobj \<Rightarrow> string" where
  "test_str x =
     (case x of
        PBool b \<Rightarrow> if b then ''True'' else ''False''
      | PInt n \<Rightarrow> str_int n
      | PFloat r \<Rightarrow> str_int \<lfloor>r\<rfloor> @ ''.0''
      | PStr s \<Rightarrow> s
      | PList xs \<Rightarrow> ''[]'')"

definition is_space :: "char \<Rightarrow> bool" where
  "is_space c = ((of_char c :: nat) \<in> set [9, 10, 11, 12, 13, 32])"

definition test_strip :: "string \<Rightarrow> string" where
  "test_strip s = rev (dropWhile is_space (rev (dropWhile is_space s)))"

definition test_lower :: "string \<Rightarrow> string" where
  "test_lower s =
     map (\<lambda>c. let n = (of_char c :: nat) in if 65 \<le> n \<and> n \<le> 90 then char_of (n + 32) else c) s"

text \<open>
  \<^verbatim>\<open>.astype('Int64')\<close> after \<^verbatim>\<open>to_numeric\<close> raises \<^verbatim>\<open>TypeError\<close> when a value has a
  fractional part; the truth value of \<^verbatim>\<open>pd.isna\<close> of a list is that of its only element,
  and a \<^verbatim>\<open>ValueError\<close> for a list of another length.
\<close>

definition test_pandas :: pandas where
  "test_pandas =
     \<lparr>pd_to_datetime = (\<lambda>fmt series. Inr (\<lambda>i. NA)),
      pd_to_Int64 = (\<lambda>series.
         if list_ex is_fraction series
         then Inl (Exn ''TypeError'' ''cannot safely cast non-equivalent float64 to int64'')
         else Inr (\<lambda>i. case to_numeric (series ! i) of
                          None \<Rightarrow> NA | Some r \<Rightarrow> TInt \<lfloor>r\<rfloor>)),
      pd_to_Float64 = (\<lambda>series.
         Inr (\<lambda>i. case to_numeric (series ! i) of None \<Rightarrow> NA | Some r \<Rightarrow> TFloat r)),
      pd_element = test_element,
      pd_isna_list = (\<lambda>xs. case xs of
                         [x] \<Rightarrow> Inr (x = JNull)
                       | _ \<Rightarrow> Inl (Exn ''ValueError''
                                     ''The truth value of an array is ambiguous'')),
      py_str = test_str,
      py_strip = test_strip,
      py_lower = test_lower,
      pd_mul = (\<lambda>ty converted k. None),
      pd_add = (\<lambda>ty converted k. None)\<rparr>"

definition test_config :: config where
  "test_config =
     \<lparr>cfg_name = ''test_api'', cfg_base_url = ''http://example.com'', cfg_endpoint = ''/data'',
      cfg_params = [], cfg_auth = AuthOther,
      cfg_pagination = Some \<lparr>pg_type = ''page'', page_param = Some ''page'', start_page = Some 1,
                              cursor_param = None, cursor_key = None, next_link_key = None\<rparr>,
      cfg_rpm = Some (JInt 120),
      cfg_mappings =
        [\<lparr>m_source = ''type'', m_target = ''event_type'', m_type = Some ''string'',
          m_format = None, m_scale = None, m_offset = None\<rparr>,
         \<lparr>m_source = ''repo.id'', m_target = ''repo_id'', m_type = Some ''int'',
          m_format = None, m_scale = None, m_offset = None\<rparr>],
      cfg_schema = None, cfg_output_table = Some ''test_events'', cfg_unique_keys = []\<rparr>"

definition test_pages :: "page list" where
  "test_pages =
     [PageList
        [[(''type'', JStr ''PushEvent''), (''repo'', JObj [(''id'', JInt 123)])],
         [(''type'', JStr ''ForkEvent''), (''repo'', JObj [(''id'', JStr ''not_int'')])]]]"

definition empty_pages :: "page list" where
  "empty_pages = [PageList [], PageOther]"

text \<open>
  A validator library for the runs below.  Its pandera checks what it is handed: a
  declared column that the frame lacks is one failure case without a row label; a cell of
  an \<^verbatim>\<open>int\<close> column that is no number and no decimal string fails the coercion, which
  pandera reports in two failure cases under the label of the row; a missing cell of a
  column that is not nullable is one failure case under the label of the row.  Its
  \<^verbatim>\<open>duplicated\<close> compares the key cells as values of the built columns: missing cells
  are equal, numbers are equal by their value.
\<close>

definition cell_failures :: "string \<Rightarrow> string \<Rightarrow> bool \<Rightarrow> nat \<Rightarrow> json option \<Rightarrow> failure_case list" where
  "cell_failures col dtype nullable i cell =
     (if isnull cell then
        (if nullable then []
         else [\<lparr>fc_index = Some (int i), fc_text = col @ '': not_nullable''\<rparr>])
      else if dtype = ''int'' \<and> to_numeric cell = None then
        [\<lparr>fc_index = Some (int i), fc_text = col @ '': coerce_dtype(int64)''\<rparr>,
         \<lparr>fc_index = Some (int i), fc_text = col @ '': dtype(int64)''\<rparr>]
      else [])"

definition column_failures :: "json option frame \<Rightarrow> string \<times> string \<times> bool \<Rightarrow> failure_case list" where
  "column_failures df c =
     (case map_of (df_cols df) (fst c) of
        None \<Rightarrow> [\<lparr>fc_index = None, fc_text = fst c @ '': column_in_dataframe''\<rparr>]
      | Some series \<Rightarrow>
          concat (map (\<lambda>i. cell_failures (fst c) (fst (snd c)) (snd (snd c)) i (series ! i))
                    [0..<length series]))"

fun key_value :: "json option \<Rightarrow> real option + json" where
  "key_value None = Inl None"
| "key_value (Some JNull) = Inl None"
| "key_value (Some (JInt n)) = Inl (Some (real_of_int n))"
| "key_value (Some (JFloat r)) = Inl (Some r)"
| "key_value (Some (JBool b)) = Inl (Some (if b then 1 else 0))"
| "key_value (Some v) = Inr v"

definition test_duplicated :: "json option frame \<Rightarrow> string list \<Rightarrow> exn + bool" where
  "test_duplicated df keys =
     (if list_all (\<lambda>k. k \<in> set (columns df)) keys
      then Inr (\<not> distinct (map (\<lambda>i. map (\<lambda>k. key_value (source_series df k ! i)) keys)
                               [0..<length (df_index df)]))
      else Inl (Exn ''KeyError'' ''unique_keys''))"

definition test_pandera :: pandera where
  "test_pandera =
     \<lparr>pa_validate = (\<lambda>cols df.
         case concat (map (column_failures df) cols) of
           [] \<Rightarrow> Validated df
         | fcs \<Rightarrow> SchemaErrors fcs),
      pd_dtype = (\<lambda>series. ObjectDtype),
      pd_duplicated_any = test_duplicated\<rparr>"

definition test_clock :: clock where
  "test_clock = \<lparr>t_start = 10, t_done = 12, t_failed = 13\<rparr>"

text \<open>The dtypes pandas gives the columns of the typed frame of \<open>test_config\<close>.\<close>

definition test_dtype_str :: "string \<Rightarrow> tval list \<Rightarrow> string" where
  "test_dtype_str col series =
     (if col = ''ingestion_timestamp'' then ''datetime64[us]''
      else if col = ''repo_id'' then ''Int64''
      else if col = ''event_type'' then ''string''
      else ''object'')"

text \<open>A database that refuses to create the destination table and to log a failed run.\<close>

definition failing_db :: database where
  "failing_db =
     \<lparr>create_engine = None,
      execute = (\<lambda>tr s. case s of
                   CreateAnalyticsTable t cols pk \<Rightarrow> Inl (Exn ''OperationalError'' ''disk full'')
                 | InsertMonitor r \<Rightarrow>
                     if rr_status r = ''failed''
                     then Inl (Exn ''OperationalError'' ''ledger unavailable'') else Inr 1
                 | _ \<Rightarrow> Inr 0),
      dtype_str = test_dtype_str\<rparr>"

definition accepting_db :: database where
  "accepting_db =
     \<lparr>create_engine = None, execute = (\<lambda>tr s. Inr 1), dtype_str = test_dtype_str\<rparr>"

text \<open>A page whose only row holds a JSON null under \<^verbatim>\<open>type\<close>.\<close>

definition null_pages :: "page list" where
  "null_pages = [PageList [[(''type'', JNull), (''repo'', JObj [(''id'', JInt 1)])]]]"

text \<open>What \<^verbatim>\<open>transform_data\<close> returns and writes on \<open>test_pages\<close> when the clock reads 7.\<close>

definition test_out :: "tval frame" where
  "test_out =
     \<lparr>df_index = [0],
      df_cols = [(''event_type'', [TStr ''PushEvent'']), (''repo_id'', [TInt 123]),
                 (''ingestion_timestamp'', [TTime 7]), (''source'', [TStr ''test_api''])]\<rparr>"

definition test_written :: "json option frame option" where
  "test_written =
     Some \<lparr>df_index = [1],
           df_cols = [(''type'', [Some (JStr ''ForkEvent'')]),
                      (''repo.id'', [Some (JStr ''not_int'')])]\<rparr>"

text \<open>
  A remote side that serves two pages of one record and then empty pages, as the mock
  of the repository's pagination test does; and the test's config without its
  \<^verbatim>\<open>rate_limit\<close> section.
\<close>

definition two_page_remote :: remote where
  "two_page_remote =
     \<lparr>credential = (\<lambda>a. Inr None),
      session_get = (\<lambda>n u params hdrs.
         if n = 0 then Response 200 (Inr (JArr [JObj [(''id'', JInt 1)]]))
         else if n = 1 then Response 200 (Inr (JArr [JObj [(''id'', JInt 2)]]))
         else Response 200 (Inr (JArr [])))\<rparr>"











definition test_dir :: "string list" where
  "test_dir = [''data'', ''raw'', ''test_api'', ''2024-06-10'']"



text \<open>A page whose only row holds 1.5 under \<^verbatim>\<open>repo.id\<close>, which \<open>test_config\<close> maps to int.\<close>

definition fraction_pages :: "page list" where
  "fraction_pages =
     [PageList [[(''type'', JStr ''PushEvent''), (''repo'', JObj [(''id'', JFloat (3 / 2))])]]]"


section \<open>Frames: labels under the operations of the transformer\<close>

lemma columns_set_col:
  "columns (set_col l c df) = (if l \<in> set (columns df) then columns df else columns df @ [l])"
proof -
  have "map fst (map (\<lambda>(l', c'). if l' = l then (l', c) else (l', c')) xs) = map fst xs"
    for xs :: "(string \<times> 'a list) list"
    by (induction xs) (auto split: prod.splits)
  then show ?thesis
    by (simp add: columns_def set_col_def)
qed

lemma df_index_set_col: "df_index (set_col l c df) = df_index df"
  by (simp add: set_col_def)

lemma columns_boolean_index: "columns (boolean_index df keep) = columns df"
  by (simp add: columns_def boolean_index_def case_prod_unfold comp_def)

lemma apply_mappings_columns:
  "apply_mappings P df_flat ms (out_df, msk) = Inr (out_df', msk') \<Longrightarrow>
   distinct (columns out_df) \<Longrightarrow>
   distinct (columns out_df') \<and>
   set (columns out_df') = set (columns out_df) \<union> set (map m_target ms)"
proof (induction ms arbitrary: out_df msk)
  case Nil
  then show ?case by simp
next
  case (Cons m ms)
  from Cons.prems(1) obtain converted where
    rest: "apply_mappings P df_flat ms
             (set_col (m_target m) converted out_df,
              map (\<lambda>(a, b). a \<or> b) (zip msk (map isna converted))) = Inr (out_df', msk')"
    by (auto split: sum.splits)
  have d: "distinct (columns (set_col (m_target m) converted out_df))"
    using Cons.prems(2) by (simp add: columns_set_col)
  from Cons.IH [OF rest d] show ?case
    by (auto simp: columns_set_col split: if_splits)
qed

lemma filter_label_distinct:
  "distinct (map fst cols) \<Longrightarrow> l \<in> set (map fst cols) \<Longrightarrow>
   map fst (filter (\<lambda>lc. fst lc = l) cols) = [l]"
proof (induction cols)
  case Nil
  then show ?case by simp
next
  case (Cons a cols)
  show ?case
  proof (cases "fst a = l")
    case True
    with Cons.prems(1) have "l \<notin> fst ` set cols"
      by simp
    then have "\<forall>lc \<in> set cols. fst lc \<noteq> l"
      by (metis image_eqI)
    then have "filter (\<lambda>lc. fst lc = l) cols = []"
      by (simp add: filter_empty_conv)
    with True show ?thesis by simp
  next
    case False
    with Cons show ?thesis by auto
  qed
qed

lemma select_cols_distinct:
  assumes "distinct (columns df)" and "set labels \<subseteq> set (columns df)"
  shows "\<exists>df'. select_cols df labels = Inr df' \<and> columns df' = labels \<and>
               df_index df' = df_index df"
proof -
  have ok: "list_all (\<lambda>l. l \<in> set (columns df)) labels"
    using assms(2) by (auto simp: list_all_iff)
  have "map fst (concat (map (\<lambda>l. filter (\<lambda>lc. fst lc = l) (df_cols df)) ls)) = ls"
    if "set ls \<subseteq> set (columns df)" for ls
    using that
  proof (induction ls)
    case Nil
    then show ?case by simp
  next
    case (Cons l ls)
    then show ?case
      using filter_label_distinct [of "df_cols df" l] assms(1)
      by (simp add: columns_def)
  qed
  with assms(2) ok show ?thesis
    by (simp add: select_cols_def columns_def)
qed

section \<open>The transformer: which rows survive\<close>

lemma transform_data_nonempty:
  assumes "load_rows pages \<noteq> []"
  shows "transform_data P config pages now_utc =
     (case apply_mappings P (json_normalize (load_rows pages)) (cfg_mappings config)
             (\<lparr>df_index = df_index (json_normalize (load_rows pages)), df_cols = []\<rparr>,
              replicate (length (df_index (json_normalize (load_rows pages)))) False) of
        Inl e \<Rightarrow> Inl e
      | Inr (out_df, msk) \<Rightarrow>
          (case select_cols (stamped config now_utc out_df msk)
                  (map m_target (cfg_mappings config) @ [''ingestion_timestamp'', ''source'']) of
             Inl e \<Rightarrow> Inl e
           | Inr clean_df \<Rightarrow>
               Inr (clean_df,
                    if df_index (boolean_index (json_normalize (load_rows pages)) msk) \<noteq> []
                    then Some (boolean_index (json_normalize (load_rows pages)) msk)
                    else None)))"
  using assms
  by (simp add: transform_data_def stamped_def Let_def split: sum.splits prod.splits)

lemma length_map_exn: "map_exn f xs = Inr ys \<Longrightarrow> length ys = length xs"
  by (induction xs arbitrary: ys) (auto split: sum.splits)

lemma length_apply_unit: "length (apply_unit op ty k converted) = length converted"
  by (simp add: apply_unit_def on_index_def split: option.splits)

lemma length_convert_series:
  "convert_series P series ty fmt scale offset = Inr converted \<Longrightarrow>
   length converted = length series"
  by (auto simp: convert_series_def on_index_def length_apply_unit elements_def
      dest!: length_map_exn split: if_splits sum.splits)

lemma length_source_series_DataFrame:
  "length (source_series (DataFrame records) src) = length records"
proof (cases "map_of (df_cols (DataFrame records)) src")
  case None
  then show ?thesis
    by (simp add: source_series_def DataFrame_def)
next
  case (Some series)
  then have "(src, series) \<in> set (df_cols (DataFrame records))"
    by (rule map_of_SomeD)
  then have "length series = length records"
    by (auto simp: DataFrame_def)
  with Some show ?thesis
    by (simp add: source_series_def)
qed

lemma length_converted_of:
  "converted_of P (json_normalize rows) m = Inr converted \<Longrightarrow> length converted = length rows"
  using length_convert_series length_source_series_DataFrame [of "map normalise_json_ordered rows"]
  by (fastforce simp: converted_of_def json_normalize_def)

lemma df_index_json_normalize: "df_index (json_normalize rows) = [0..<length rows]"
  by (simp add: json_normalize_def DataFrame_def)

text \<open>
  The loop over the mappings: every mapping converted, the index is untouched, and the
  mask is the disjunction, row by row, of the null cells met.
\<close>

lemma apply_mappings_mask:
  assumes "apply_mappings P (json_normalize rows) ms (out_df, msk) = Inr (out_df', msk')"
    and "length msk = length rows"
  shows "length msk' = length rows \<and> df_index out_df' = df_index out_df \<and>
         (\<forall>m \<in> set ms. \<exists>c. converted_of P (json_normalize rows) m = Inr c) \<and>
         (\<forall>i < length rows. msk' ! i =
            (msk ! i \<or> (\<exists>m \<in> set ms. \<exists>c. converted_of P (json_normalize rows) m = Inr c \<and> isna (c ! i))))"
  using assms
proof (induction ms arbitrary: out_df msk)
  case Nil
  then show ?case by simp
next
  case (Cons m ms)
  let ?df = "json_normalize rows"
  from Cons.prems(1) obtain c where
    conv: "converted_of P ?df m = Inr c" and
    rest: "apply_mappings P ?df ms
             (set_col (m_target m) c out_df,
              map (\<lambda>(a, b). a \<or> b) (zip msk (map isna c))) = Inr (out_df', msk')"
    by (auto split: sum.splits)
  have lc: "length c = length rows"
    using conv by (rule length_converted_of)
  have lm: "length (map (\<lambda>(a, b). a \<or> b) (zip msk (map isna c))) = length rows"
    using lc Cons.prems(2) by simp
  have step: "map (\<lambda>(a, b). a \<or> b) (zip msk (map isna c)) ! i = (msk ! i \<or> isna (c ! i))"
    if "i < length rows" for i
    using that lc Cons.prems(2) by simp
  from Cons.IH [OF rest lm] conv step show ?case
    by (auto simp: df_index_set_col)
qed

lemma zip_upt_nth:
  "length keep = length xs \<Longrightarrow>
   zip keep xs = map (\<lambda>p. (keep ! p, xs ! p)) [0..<length xs]"
  by (rule nth_equalityI) simp_all

lemma mask_list_nth:
  assumes "length keep = length xs"
  shows "mask_list keep xs = map (\<lambda>p. xs ! p) (filter (\<lambda>p. keep ! p) [0..<length xs])"
  by (simp add: mask_list_def zip_upt_nth [OF assms] filter_map comp_def)

lemma mask_list_upt:
  "length keep = n \<Longrightarrow> mask_list keep [0..<n] = filter (\<lambda>p. keep ! p) [0..<n]"
proof -
  assume len: "length keep = n"
  have "map (\<lambda>p. [0..<n] ! p) (filter (\<lambda>p. keep ! p) [0..<n]) = filter (\<lambda>p. keep ! p) [0..<n]"
    by (rule map_idI) simp
  with mask_list_nth [of keep "[0..<n]"] len show ?thesis
    by simp
qed

lemma frame_rows_boolean_index:
  assumes len: "length keep = length (df_index df)"
    and cols: "\<forall>lc \<in> set (df_cols df). length (snd lc) = length (df_index df)"
  shows "frame_rows (boolean_index df keep) = mask_list keep (frame_rows df)"
proof -
  let ?n = "length (df_index df)"
  let ?ps = "filter (\<lambda>p. keep ! p) [0..<?n]"
  let ?g = "\<lambda>p. (df_index df ! p, map (\<lambda>lc. (fst lc, snd lc ! p)) (df_cols df))"
  have idx: "df_index (boolean_index df keep) = map (\<lambda>p. df_index df ! p) ?ps"
    using len by (simp add: boolean_index_def mask_list_nth)
  have cls: "df_cols (boolean_index df keep) =
               map (\<lambda>lc. (fst lc, map (\<lambda>p. snd lc ! p) ?ps)) (df_cols df)"
    using len cols by (auto simp: boolean_index_def mask_list_nth case_prod_unfold)
  have "frame_rows (boolean_index df keep) = map (\<lambda>q. ?g (?ps ! q)) [0..<length ?ps]"
    unfolding frame_rows_def idx cls by (simp add: comp_def)
  also have "\<dots> = map ?g (map (\<lambda>q. ?ps ! q) [0..<length ?ps])"
    by (simp add: comp_def)
  also have "\<dots> = map ?g ?ps"
    by (simp only: map_nth)
  finally have lhs: "frame_rows (boolean_index df keep) = map ?g ?ps" .
  have "length (frame_rows df) = ?n"
    by (simp add: frame_rows_def)
  then have "mask_list keep (frame_rows df) = map (\<lambda>p. frame_rows df ! p) ?ps"
    using len mask_list_nth [of keep "frame_rows df"] by simp
  also have "\<dots> = map ?g ?ps"
    by (rule map_cong) (auto simp: frame_rows_def)
  finally show ?thesis
    using lhs by simp
qed

lemma DataFrame_wellformed:
  "\<forall>lc \<in> set (df_cols (DataFrame records)). length (snd lc) = length (df_index (DataFrame records))"
  by (auto simp: DataFrame_def)

lemma fst_frame_rows_json_normalize:
  "map fst (frame_rows (json_normalize rows)) = [0..<length rows]"
  by (rule nth_equalityI) (simp_all add: frame_rows_def df_index_json_normalize)

lemma select_cols_index: "select_cols df labels = Inr df' \<Longrightarrow> df_index df' = df_index df"
  by (auto simp: select_cols_def split: if_splits)

lemma df_index_stamped:
  "df_index (stamped config now_utc out_df msk) = mask_list (map Not msk) (df_index out_df)"
  by (simp add: stamped_def Let_def df_index_set_col boolean_index_def)

text \<open>
  The row filter on a run that returns.  A row of the input is in the output exactly when
  every mapped field of the row converted to a non-null value (so one null field excludes
  the row, whatever the other fields gave), and the invalid-rows file holds exactly the
  excluded rows, as the flattened input has them; no file is written when no row is
  excluded.  The rows are named by their position in the page set; \<open>written_rows\<close> of no
  file is the empty list.
\<close>

theorem transform_data_keeps_converted_rows:
  assumes run: "transform_data P config pages now_utc = Inr (out, written)"
  shows "df_index out =
           filter (\<lambda>i. \<forall>m \<in> set (cfg_mappings config).
                      \<exists>c. converted_of P (json_normalize (load_rows pages)) m = Inr c \<and> \<not> isna (c ! i))
             [0..<length (load_rows pages)]
         \<and> written_rows written =
             filter (\<lambda>r. fst r \<notin> set (df_index out)) (frame_rows (json_normalize (load_rows pages)))
         \<and> (written = None) = (df_index out = [0..<length (load_rows pages)])"
proof (cases "load_rows pages = []")
  case True
  with run show ?thesis
    by (auto simp: transform_data_def empty_frame_def written_rows_def frame_rows_def
        df_index_json_normalize)
next
  case False
  let ?rows = "load_rows pages"
  let ?df = "json_normalize ?rows"
  let ?n = "length ?rows"
  let ?ms = "cfg_mappings config"
  let ?ok = "\<lambda>i. \<forall>m \<in> set ?ms. \<exists>c. converted_of P ?df m = Inr c \<and> \<not> isna (c ! i)"
  from run obtain out_df msk where
    loop: "apply_mappings P ?df ?ms (\<lparr>df_index = df_index ?df, df_cols = []\<rparr>, replicate ?n False)
             = Inr (out_df, msk)"
    and sel: "select_cols (stamped config now_utc out_df msk)
                (map m_target ?ms @ [''ingestion_timestamp'', ''source'']) = Inr out"
    and wr: "written = (if df_index (boolean_index ?df msk) \<noteq> []
                        then Some (boolean_index ?df msk) else None)"
    unfolding transform_data_nonempty [OF False] df_index_json_normalize
    by (auto split: sum.splits prod.splits)
  from apply_mappings_mask [OF loop] have
    lm: "length msk = ?n" and ix: "df_index out_df = [0..<?n]" and
    conv: "\<forall>m \<in> set ?ms. \<exists>c. converted_of P ?df m = Inr c" and
    bits: "\<forall>i < ?n. msk ! i = (\<exists>m \<in> set ?ms. \<exists>c. converted_of P ?df m = Inr c \<and> isna (c ! i))"
    by (simp_all add: df_index_json_normalize)
  have ok: "?ok i = (\<not> msk ! i)" if "i < ?n" for i
    using bits conv that by fastforce
  have "df_index out = mask_list (map Not msk) [0..<?n]"
    using select_cols_index [OF sel] by (simp add: df_index_stamped ix)
  also have "\<dots> = filter (\<lambda>p. map Not msk ! p) [0..<?n]"
    using lm by (simp add: mask_list_upt)
  also have "\<dots> = filter ?ok [0..<?n]"
    by (rule filter_cong) (simp_all add: ok lm)
  finally have index: "df_index out = filter ?ok [0..<?n]" .
  have kept: "(p \<notin> set (df_index out)) = msk ! p" if "p < ?n" for p
    using that by (simp add: index ok)
  have "written_rows written = frame_rows (boolean_index ?df msk)"
    by (simp add: wr written_rows_def frame_rows_def)
  also have "\<dots> = mask_list msk (frame_rows ?df)"
    using lm DataFrame_wellformed [of "map normalise_json_ordered ?rows"]
    by (intro frame_rows_boolean_index) (simp_all add: json_normalize_def DataFrame_def)
  also have "\<dots> = map (\<lambda>p. frame_rows ?df ! p) (filter (\<lambda>p. msk ! p) [0..<?n])"
    using lm mask_list_nth [of msk "frame_rows ?df"]
    by (simp add: frame_rows_def df_index_json_normalize)
  also have "\<dots> = map (\<lambda>p. frame_rows ?df ! p) (filter (\<lambda>p. fst (frame_rows ?df ! p) \<notin> set (df_index out)) [0..<?n])"
    by (rule arg_cong [where f = "map (\<lambda>p. frame_rows ?df ! p)"], rule filter_cong)
       (simp_all add: kept frame_rows_def df_index_json_normalize)
  also have "\<dots> = filter (\<lambda>r. fst r \<notin> set (df_index out)) (map (\<lambda>p. frame_rows ?df ! p) [0..<?n])"
    by (simp add: filter_map comp_def)
  also have "map (\<lambda>p. frame_rows ?df ! p) [0..<?n] = frame_rows ?df"
    using map_nth [of "frame_rows ?df"] by (simp add: frame_rows_def df_index_json_normalize)
  finally have rows: "written_rows written =
      filter (\<lambda>r. fst r \<notin> set (df_index out)) (frame_rows ?df)" .
  have "(written = None) = (mask_list msk [0..<?n] = [])"
    by (simp add: wr boolean_index_def df_index_json_normalize)
  also have "\<dots> = (\<forall>p < ?n. \<not> msk ! p)"
    using lm by (auto simp: mask_list_upt filter_empty_conv)
  also have "\<dots> = (filter ?ok [0..<?n] = [0..<?n])"
    using ok by (auto simp: filter_id_conv)
  finally have none: "(written = None) = (df_index out = [0..<?n])"
    by (simp add: index)
  from index rows none show ?thesis
    by simp
qed

theorem transform_data_keeps_converted_rows_witness:
  "transform_data test_pandas test_config test_pages 7 = Inr (test_out, test_written) \<and>
   (df_index test_out =
      filter (\<lambda>i. \<forall>m \<in> set (cfg_mappings test_config).
                 \<exists>c. converted_of test_pandas (json_normalize (load_rows test_pages)) m = Inr c \<and>
                     \<not> isna (c ! i))
        [0..<length (load_rows test_pages)]
    \<and> written_rows test_written =
        filter (\<lambda>r. fst r \<notin> set (df_index test_out))
          (frame_rows (json_normalize (load_rows test_pages)))
    \<and> (test_written = None) = (df_index test_out = [0..<length (load_rows test_pages)]))"
proof -
  have run: "transform_data test_pandas test_config test_pages 7 = Inr (test_out, test_written)"
    by code_simp
  show ?thesis
    by (rule conjI [OF run transform_data_keeps_converted_rows [OF run]])
qed

section \<open>The transformer: conversions that raise\<close>

text \<open>
  The element-wise conversions on columns as pandas builds them.  Beside a missing cell
  an integer is a float, whose text \<^verbatim>\<open>1.0\<close> is in neither set of \<^verbatim>\<open>to_bool\<close>, so every
  row of such a column converts to null; without the missing cell the integers 1 and 0
  are true and false.  The string conversion prints the same float.  A list of two
  elements under a bool mapping raises.
\<close>

lemma bool_of_integers:
  "convert_series test_pandas [Some (JInt 1), Some JNull, Some (JInt 0)] ''bool'' None None None =
     Inr [NA, NA, NA] \<and>
   convert_series test_pandas [Some (JInt 1), Some (JInt 0)] ''bool'' None None None =
     Inr [TBool True, TBool False] \<and>
   convert_series test_pandas [Some (JStr '' Yes ''), Some (JBool False), Some (JStr ''maybe'')]
       ''bool'' None None None =
     Inr [TBool True, TBool False, NA] \<and>
   convert_series test_pandas [Some (JInt 1), None] ''string'' None None None =
     Inr [TStr ''1.0'', NA] \<and>
   convert_series test_pandas [Some (JArr [JInt 1, JInt 2])] ''bool'' None None None =
     Inl (Exn ''ValueError'' ''The truth value of an array is ambiguous'')"
  by code_simp

text \<open>
  C2.  The claim holds of every field that converts to null (the row is then excluded and
  written to the invalid-rows file, as shown above for every run that returns), but the
  source does not turn every unconvertible field into null.  The only row of this page
  holds 1.5 under \<^verbatim>\<open>repo.id\<close>, which the config maps to int: \<^verbatim>\<open>pd.to_numeric\<close> keeps the
  1.5, \<^verbatim>\<open>.astype('Int64')\<close> raises \<^verbatim>\<open>TypeError\<close>, and nothing catches it.  So
  \<^verbatim>\<open>transform_data\<close> raises: the row is not excluded from an output, for there is none,
  and no invalid-rows file is written.
\<close>

theorem int_mapping_raises_on_fraction:
  "load_rows fraction_pages =
     [[(''type'', JStr ''PushEvent''), (''repo'', JObj [(''id'', JFloat (3 / 2))])]] \<and>
   converted_of test_pandas (json_normalize (load_rows fraction_pages))
     \<lparr>m_source = ''repo.id'', m_target = ''repo_id'', m_type = Some ''int'',
      m_format = None, m_scale = None, m_offset = None\<rparr> =
     Inl (Exn ''TypeError'' ''cannot safely cast non-equivalent float64 to int64'') \<and>
   transform_data test_pandas test_config fraction_pages 0 =
     Inl (Exn ''TypeError'' ''cannot safely cast non-equivalent float64 to int64'')"
  by code_simp

section \<open>The transformer: the column header\<close>

text \<open>
  C5.  Whenever \<^verbatim>\<open>transform_data\<close> returns a frame, its column labels are the mapped
  targets in the order of the config, then \<^verbatim>\<open>ingestion_timestamp\<close>, then \<^verbatim>\<open>source\<close>;
  and on a page set with no rows it does return: a frame with that header and no rows,
  and no invalid-rows file.
\<close>

theorem transform_data_column_order:
  "(\<forall>out written. transform_data P config pages now_utc = Inr (out, written) \<longrightarrow>
      columns out = map m_target (cfg_mappings config) @ [''ingestion_timestamp'', ''source''])
   \<and> (load_rows pages = [] \<longrightarrow>
        transform_data P config pages now_utc =
          Inr (\<lparr>df_index = [],
                df_cols = map (\<lambda>l. (l, []))
                            (map m_target (cfg_mappings config) @
                             [''ingestion_timestamp'', ''source''])\<rparr>, None))"
proof (intro conjI allI impI)
  assume "load_rows pages = []"
  then show "transform_data P config pages now_utc =
          Inr (\<lparr>df_index = [],
                df_cols = map (\<lambda>l. (l, []))
                            (map m_target (cfg_mappings config) @
                             [''ingestion_timestamp'', ''source''])\<rparr>, None)"
    by (simp add: transform_data_def empty_frame_def)
next
  fix out written
  assume run: "transform_data P config pages now_utc = Inr (out, written)"
  let ?labels = "map m_target (cfg_mappings config) @ [''ingestion_timestamp'', ''source'']"
  show "columns out = ?labels"
  proof (cases "load_rows pages = []")
    case True
    with run show ?thesis
      by (auto simp: transform_data_def empty_frame_def columns_def comp_def)
  next
    case False
    let ?df = "json_normalize (load_rows pages)"
    from run obtain out_df msk where
      loop: "apply_mappings P ?df (cfg_mappings config)
               (\<lparr>df_index = df_index ?df, df_cols = []\<rparr>,
                replicate (length (df_index ?df)) False) = Inr (out_df, msk)"
      and sel: "select_cols (stamped config now_utc out_df msk) ?labels = Inr out"
      unfolding transform_data_nonempty [OF False]
      by (auto split: sum.splits prod.splits)
    have "distinct (columns \<lparr>df_index = df_index ?df, df_cols = ([] :: (string \<times> tval list) list)\<rparr>)"
      by (simp add: columns_def)
    from apply_mappings_columns [OF loop this]
    have d: "distinct (columns out_df)"
      and s: "set (columns out_df) = set (map m_target (cfg_mappings config))"
      by (simp_all add: columns_def)
    have d2: "distinct (columns (stamped config now_utc out_df msk))"
      using d by (simp add: stamped_def Let_def columns_set_col columns_boolean_index)
    have s2: "set ?labels \<subseteq> set (columns (stamped config now_utc out_df msk))"
      using s by (auto simp: stamped_def Let_def columns_set_col columns_boolean_index)
    from select_cols_distinct [OF d2 s2] sel show ?thesis
      by auto
  qed
qed

theorem transform_data_column_order_witness:
  "transform_data test_pandas test_config test_pages 7 =
     Inr (\<lparr>df_index = [0],
           df_cols = [(''event_type'', [TStr ''PushEvent'']), (''repo_id'', [TInt 123]),
                      (''ingestion_timestamp'', [TTime 7]), (''source'', [TStr ''test_api''])]\<rparr>,
          Some \<lparr>df_index = [1],
                df_cols = [(''type'', [Some (JStr ''ForkEvent'')]),
                           (''repo.id'', [Some (JStr ''not_int'')])]\<rparr>) \<and>
   columns \<lparr>df_index = [0],
            df_cols = [(''event_type'', [TStr ''PushEvent'']), (''repo_id'', [TInt 123]),
                       (''ingestion_timestamp'', [TTime 7]), (''source'', [TStr ''test_api''])]\<rparr> =
     [''event_type'', ''repo_id'', ''ingestion_timestamp'', ''source''] \<and>
   load_rows empty_pages = [] \<and>
   transform_data test_pandas test_config empty_pages 7 =
     Inr (\<lparr>df_index = [],
           df_cols = [(''event_type'', []), (''repo_id'', []),
                      (''ingestion_timestamp'', []), (''source'', [])]\<rparr>, None)"
proof -
  have run: "transform_data test_pandas test_config test_pages 7 =
     Inr (\<lparr>df_index = [0],
           df_cols = [(''event_type'', [TStr ''PushEvent'']), (''repo_id'', [TInt 123]),
                      (''ingestion_timestamp'', [TTime 7]), (''source'', [TStr ''test_api''])]\<rparr>,
          Some \<lparr>df_index = [1],
                df_cols = [(''type'', [Some (JStr ''ForkEvent'')]),
                           (''repo.id'', [Some (JStr ''not_int'')])]\<rparr>)"
    by code_simp
  have emp: "load_rows empty_pages = []"
    by (simp add: empty_pages_def)
  have targets: "map m_target (cfg_mappings test_config) = [''event_type'', ''repo_id'']"
    by (simp add: test_config_def)
  from transform_data_column_order [of test_pandas test_config test_pages 7] run targets
  have c1: "columns \<lparr>df_index = [0],
            df_cols = [(''event_type'', [TStr ''PushEvent'']), (''repo_id'', [TInt 123]),
                       (''ingestion_timestamp'', [TTime 7]), (''source'', [TStr ''test_api''])]\<rparr> =
     [''event_type'', ''repo_id'', ''ingestion_timestamp'', ''source'']"
    by simp
  from transform_data_column_order [of test_pandas test_config empty_pages 7] emp targets
  have c2: "transform_data test_pandas test_config empty_pages 7 =
     Inr (\<lparr>df_index = [],
           df_cols = [(''event_type'', []), (''repo_id'', []),
                      (''ingestion_timestamp'', []), (''source'', [])]\<rparr>, None)"
    by simp
  from run c1 emp c2 show ?thesis
    by simp
qed

section \<open>The transformer: the clock\<close>


lemma df_index_without_clock: "df_index (without_clock df) = df_index df"
  by (simp add: without_clock_def)







section \<open>The transformer: string fields\<close>

lemma isna_astype_string:
  "i < length series \<Longrightarrow> isna (astype_string P (elements P series ! i)) = isnull (series ! i)"
  by (simp add: elements_def)

lemma length_elements: "length (elements P series) = length series"
  by (simp add: elements_def)

text \<open>
  C10, as amended.  For a mapping of type string with no scale and no offset, the
  conversion cannot fail, and the converted cell of a row is null exactly when the source
  cell of that row is: always when the flattened input has no such column, and otherwise
  when the row lacks the key or holds a JSON null under it.
\<close>

theorem string_field_null_iff_source_null:
  assumes "target_type m = ''string''" and "m_scale m = None" and "m_offset m = None"
  shows "\<exists>c. converted_of P (json_normalize rows) m = Inr c \<and> length c = length rows \<and>
           (\<forall>i < length rows.
              isna (c ! i) =
                (case map_of (df_cols (json_normalize rows)) (m_source m) of
                   None \<Rightarrow> True
                 | Some series \<Rightarrow> isnull (series ! i)))"
proof -
  let ?src = "source_series (json_normalize rows) (m_source m)"
  have conv: "converted_of P (json_normalize rows) m =
                Inr (map (astype_string P) (elements P ?src))"
    using assms
    by (simp add: converted_of_def target_type_def convert_series_def apply_unit_def)
  have len: "length ?src = length rows"
    using length_source_series_DataFrame [of "map normalise_json_ordered rows"]
    by (simp add: json_normalize_def)
  have "isna (map (astype_string P) (elements P ?src) ! i) =
          (case map_of (df_cols (json_normalize rows)) (m_source m) of
             None \<Rightarrow> True
           | Some series \<Rightarrow> isnull (series ! i))" if "i < length rows" for i
  proof -
    have "isna (map (astype_string P) (elements P ?src) ! i) = isnull (?src ! i)"
      using that len by (simp add: length_elements isna_astype_string)
    also have "\<dots> = (case map_of (df_cols (json_normalize rows)) (m_source m) of
                          None \<Rightarrow> True
                        | Some series \<Rightarrow> isnull (series ! i))"
      using that by (simp add: source_series_def df_index_json_normalize split: option.splits)
    finally show ?thesis .
  qed
  with conv len show ?thesis
    by (simp add: length_elements)
qed

theorem string_field_null_iff_source_null_witness:
  "target_type (hd (cfg_mappings test_config)) = ''string'' \<and>
   m_scale (hd (cfg_mappings test_config)) = None \<and>
   m_offset (hd (cfg_mappings test_config)) = None \<and>
   (\<exists>c. converted_of test_pandas (json_normalize (load_rows null_pages))
           (hd (cfg_mappings test_config)) = Inr c \<and>
        length c = length (load_rows null_pages) \<and>
        isna (c ! 0) =
          (case map_of (df_cols (json_normalize (load_rows null_pages)))
                  (m_source (hd (cfg_mappings test_config))) of
             None \<Rightarrow> True
           | Some series \<Rightarrow> isnull (series ! 0)))"
proof -
  have h1: "target_type (hd (cfg_mappings test_config)) = ''string''"
    by (simp add: test_config_def target_type_def)
  have h2: "m_scale (hd (cfg_mappings test_config)) = None"
    by (simp add: test_config_def)
  have h3: "m_offset (hd (cfg_mappings test_config)) = None"
    by (simp add: test_config_def)
  have "0 < length (load_rows null_pages)"
    by (simp add: null_pages_def)
  with string_field_null_iff_source_null [OF h1 h2 h3, of test_pandas "load_rows null_pages"]
  show ?thesis
    using h1 h2 h3 by blast
qed

text \<open>
  C10 as stated fails.  The only row of the page holds a JSON null under \<^verbatim>\<open>type\<close>: the
  source column is present, the string conversion gives null, and the row is dropped and
  written to the invalid-rows file, though its other mapped field converted.
\<close>

theorem string_field_null_drops_row:
  "map_of (df_cols (json_normalize (load_rows null_pages))) ''type'' = Some [Some JNull] \<and>
   converted_of test_pandas (json_normalize (load_rows null_pages))
     \<lparr>m_source = ''type'', m_target = ''event_type'', m_type = Some ''string'',
      m_format = None, m_scale = None, m_offset = None\<rparr> = Inr [NA] \<and>
   transform_data test_pandas test_config null_pages 0 =
     Inr (\<lparr>df_index = [],
           df_cols = [(''event_type'', []), (''repo_id'', []),
                      (''ingestion_timestamp'', []), (''source'', [])]\<rparr>,
          Some \<lparr>df_index = [0],
                df_cols = [(''type'', [Some JNull]), (''repo.id'', [Some (JInt 1)])]\<rparr>)"
  by code_simp

section \<open>The schema engine: no data\<close>

text \<open>
  C6.  When the raw page store of the (api, date) holds no row, \<^verbatim>\<open>validate_schema\<close>
  returns (it raises nothing) the report with \<open>valid_rows = 0\<close>, \<open>invalid_rows = 0\<close> and
  the one error \<^verbatim>\<open>"No data found."\<close>, with no inferred schema, and writes no file.
\<close>

theorem validate_schema_no_data:
  "load_rows pages = [] \<Longrightarrow>
   validate_schema V config pages =
     Inr (\<lparr>valid_rows = 0, invalid_rows = 0, errors = [Message ''No data found.''],
           inferred_schema = None\<rparr>, [])"
  by (simp add: validate_schema_def)

theorem validate_schema_no_data_witness:
  "load_rows empty_pages = [] \<and>
   validate_schema test_pandera test_config empty_pages =
     Inr (\<lparr>valid_rows = 0, invalid_rows = 0, errors = [Message ''No data found.''],
           inferred_schema = None\<rparr>, [])"
proof -
  have h: "load_rows empty_pages = []"
    by (simp add: empty_pages_def)
  show ?thesis
    using h validate_schema_no_data [OF h, of test_pandera test_config] by simp
qed

section \<open>The schema engine: the threshold and the checks behind it\<close>









section \<open>The loader\<close>

lemma exec_trace: "exec D tr s = (execute D tr s, tr @ [(s, execute D tr s)])"
  by (simp add: exec_def Let_def)

lemma upsert_data_trace:
  assumes "upsert_data D tr t df keys d = (r, tr')"
  shows "\<exists>new. tr' = tr @ new \<and> (\<forall>n. r = Inr n \<longrightarrow> list_all succeeded new) \<and>
               (\<forall>e. r = Inl e \<longrightarrow> new \<noteq> [] \<and> snd (last new) = Inl e)"
  using assms
  by (auto simp: upsert_data_def exec_trace split: if_splits sum.splits prod.splits)

lemma load_steps_succeeded:
  assumes "load_steps D P config pages now_utc execution_date run_id clk tr0 = (Inr res, tr)"
  shows "list_all succeeded (drop (length tr0) tr)"
  using assms
  apply (simp add: load_steps_def Let_def exec_trace create_pipeline_monitor_table_def
      log_pipeline_run_def create_analytics_table_def
      split: sum.splits prod.splits if_splits)
   apply (auto dest!: upsert_data_trace)
  done

lemma load_steps_raises_what_failed:
  assumes "load_steps D P config pages now_utc execution_date run_id clk tr0 = (Inl e, tr)"
  shows "transform_data P config pages now_utc = Inl e \<or> (tr \<noteq> [] \<and> snd (last tr) = Inl e)"
  using assms
  apply (simp add: load_steps_def Let_def exec_trace create_pipeline_monitor_table_def
      log_pipeline_run_def create_analytics_table_def
      split: sum.splits prod.splits if_splits)
   apply (auto dest!: upsert_data_trace)
  done

text \<open>
  C7.  Once the engine exists: when a step of the load fails, \<^verbatim>\<open>load_to_postgres\<close> sends
  the ledger entry of a failed run, carrying the message of the exception, and then
  raises that same exception, whatever the database answers to the ledger entry (so a
  failure to write the entry masks nothing); the exception is the one of the failed
  step (the transform, or the last statement sent); and a load that returns a result
  has had every statement succeed and the transform return, so no failure is swallowed.
\<close>

theorem load_failure_logged_then_raised:
  assumes eng: "create_engine D = None"
  shows "(\<forall>e tr. load_steps D P config pages now_utc execution_date run_id clk tr0 = (Inl e, tr) \<longrightarrow>
            load_to_postgres D P (Inr config) pages now_utc execution_date run_id clk tr0 =
              (Inl e,
               tr @ [(InsertMonitor (failed_entry config execution_date run_id clk e),
                      execute D tr (InsertMonitor (failed_entry config execution_date run_id clk e)))])
            \<and> (transform_data P config pages now_utc = Inl e \<or> (tr \<noteq> [] \<and> snd (last tr) = Inl e)))
       \<and> (\<forall>res tr. load_to_postgres D P (Inr config) pages now_utc execution_date run_id clk tr0 =
                      (Inr res, tr) \<longrightarrow>
            list_all succeeded (drop (length tr0) tr) \<and>
            (\<exists>out. transform_data P config pages now_utc = Inr out))"
proof (intro conjI allI impI)
  fix e tr
  assume steps: "load_steps D P config pages now_utc execution_date run_id clk tr0 = (Inl e, tr)"
  with eng show "load_to_postgres D P (Inr config) pages now_utc execution_date run_id clk tr0 =
              (Inl e,
               tr @ [(InsertMonitor (failed_entry config execution_date run_id clk e),
                      execute D tr (InsertMonitor (failed_entry config execution_date run_id clk e)))])"
    by (simp add: load_to_postgres_def on_failure_def failed_entry_def log_pipeline_run_def
        exec_trace Let_def split: sum.splits)
  from steps show "transform_data P config pages now_utc = Inl e \<or> (tr \<noteq> [] \<and> snd (last tr) = Inl e)"
    by (rule load_steps_raises_what_failed)
next
  fix res tr
  assume run: "load_to_postgres D P (Inr config) pages now_utc execution_date run_id clk tr0 =
                 (Inr res, tr)"
  with eng have steps:
    "load_steps D P config pages now_utc execution_date run_id clk tr0 = (Inr res, tr)"
    by (auto simp: load_to_postgres_def on_failure_def exec_trace log_pipeline_run_def Let_def
        split: sum.splits prod.splits)
  then show "list_all succeeded (drop (length tr0) tr)"
    by (rule load_steps_succeeded)
  from steps show "\<exists>out. transform_data P config pages now_utc = Inr out"
    by (auto simp: load_steps_def Let_def exec_trace create_pipeline_monitor_table_def
        split: sum.splits prod.splits)
qed

theorem load_failure_logged_then_raised_witness:
  "create_engine failing_db = None \<and>
   load_steps failing_db test_pandas test_config test_pages 7 ''2024-06-10'' ''run-1'' test_clock [] =
     (Inl (Exn ''OperationalError'' ''disk full''),
      [(CreateMonitorTable, Inr 0),
       (CreateAnalyticsTable ''test_events''
          [(''event_type'', ''VARCHAR(500)''), (''repo_id'', ''VARCHAR(500)''),
           (''ingestion_timestamp'', ''TIMESTAMP''), (''source'', ''VARCHAR(500)'')] [],
        Inl (Exn ''OperationalError'' ''disk full''))]) \<and>
   load_to_postgres failing_db test_pandas (Inr test_config) test_pages 7 ''2024-06-10'' ''run-1''
       test_clock [] =
     (Inl (Exn ''OperationalError'' ''disk full''),
      [(CreateMonitorTable, Inr 0),
       (CreateAnalyticsTable ''test_events''
          [(''event_type'', ''VARCHAR(500)''), (''repo_id'', ''VARCHAR(500)''),
           (''ingestion_timestamp'', ''TIMESTAMP''), (''source'', ''VARCHAR(500)'')] [],
        Inl (Exn ''OperationalError'' ''disk full'')),
       (InsertMonitor
          \<lparr>rr_run_id = ''run-1'', rr_dag_id = ''test_api'', rr_run_date = ''2024-06-10'',
           rr_rows_processed = 0, rr_duration_sec = 3, rr_status = ''failed'',
           rr_error_message = Some ''disk full''\<rparr>,
        Inl (Exn ''OperationalError'' ''ledger unavailable''))])"
proof -
  have eng: "create_engine failing_db = None"
    by (simp add: failing_db_def)
  have steps: "load_steps failing_db test_pandas test_config test_pages 7 ''2024-06-10'' ''run-1''
                 test_clock [] =
     (Inl (Exn ''OperationalError'' ''disk full''),
      [(CreateMonitorTable, Inr 0),
       (CreateAnalyticsTable ''test_events''
          [(''event_type'', ''VARCHAR(500)''), (''repo_id'', ''VARCHAR(500)''),
           (''ingestion_timestamp'', ''TIMESTAMP''), (''source'', ''VARCHAR(500)'')] [],
        Inl (Exn ''OperationalError'' ''disk full''))])"
    by code_simp
  have entry: "failed_entry test_config ''2024-06-10'' ''run-1'' test_clock
                 (Exn ''OperationalError'' ''disk full'') =
     \<lparr>rr_run_id = ''run-1'', rr_dag_id = ''test_api'', rr_run_date = ''2024-06-10'',
      rr_rows_processed = 0, rr_duration_sec = 3, rr_status = ''failed'',
      rr_error_message = Some ''disk full''\<rparr>"
    by (simp add: failed_entry_def test_config_def test_clock_def)
  have refused: "execute failing_db tr
       (InsertMonitor
          \<lparr>rr_run_id = ''run-1'', rr_dag_id = ''test_api'', rr_run_date = ''2024-06-10'',
           rr_rows_processed = 0, rr_duration_sec = 3, rr_status = ''failed'',
           rr_error_message = Some ''disk full''\<rparr>) =
       Inl (Exn ''OperationalError'' ''ledger unavailable'')" for tr
    by (simp add: failing_db_def)
  from load_failure_logged_then_raised [OF eng, of test_pandas test_config test_pages 7
      "''2024-06-10''" "''run-1''" test_clock "[]"] steps
  have "load_to_postgres failing_db test_pandas (Inr test_config) test_pages 7 ''2024-06-10''
          ''run-1'' test_clock [] =
     (Inl (Exn ''OperationalError'' ''disk full''),
      [(CreateMonitorTable, Inr 0),
       (CreateAnalyticsTable ''test_events''
          [(''event_type'', ''VARCHAR(500)''), (''repo_id'', ''VARCHAR(500)''),
           (''ingestion_timestamp'', ''TIMESTAMP''), (''source'', ''VARCHAR(500)'')] [],
        Inl (Exn ''OperationalError'' ''disk full'')),
       (InsertMonitor
          \<lparr>rr_run_id = ''run-1'', rr_dag_id = ''test_api'', rr_run_date = ''2024-06-10'',
           rr_rows_processed = 0, rr_duration_sec = 3, rr_status = ''failed'',
           rr_error_message = Some ''disk full''\<rparr>,
        Inl (Exn ''OperationalError'' ''ledger unavailable''))])"
    by (simp add: entry refused)
  with eng steps show ?thesis
    by simp
qed

text \<open>
  C8.  When the frame the transformer returns is empty, the load sends no statement that
  creates or writes the destination table, whatever the database answers; and when the
  database accepts the two statements it is sent (the creation of the ledger table and
  the ledger entry), the load returns a success result with zero rows processed, having
  sent exactly those two: the ledger entry is the success entry with zero rows.
\<close>

theorem load_of_empty_frame_is_success:
  assumes tf: "transform_data P config pages now_utc = Inr (df, written)"
    and emp: "df_empty df"
    and eng: "create_engine D = None"
  shows "list_all (\<lambda>sr. \<not> is_data_stmt (fst sr))
           (drop (length tr0)
              (snd (load_to_postgres D P (Inr config) pages now_utc execution_date run_id clk tr0)))
       \<and> (\<forall>n k. execute D tr0 CreateMonitorTable = Inr n \<longrightarrow>
             execute D (tr0 @ [(CreateMonitorTable, Inr n)])
               (InsertMonitor (success_entry config execution_date run_id clk 0)) = Inr k \<longrightarrow>
             load_to_postgres D P (Inr config) pages now_utc execution_date run_id clk tr0 =
               (Inr \<lparr>lr_run_id = run_id, lr_rows_processed = 0,
                     lr_duration_sec = t_done clk - t_start clk, lr_status = ''success''\<rparr>,
                tr0 @ [(CreateMonitorTable, Inr n),
                       (InsertMonitor (success_entry config execution_date run_id clk 0), Inr k)]))"
proof (intro conjI allI impI)
  show "list_all (\<lambda>sr. \<not> is_data_stmt (fst sr))
           (drop (length tr0)
              (snd (load_to_postgres D P (Inr config) pages now_utc execution_date run_id clk tr0)))"
    using tf emp eng
    by (simp add: load_to_postgres_def load_steps_def on_failure_def exec_trace
        create_pipeline_monitor_table_def log_pipeline_run_def Let_def
        split: sum.splits prod.splits)
next
  fix n k
  assume "execute D tr0 CreateMonitorTable = Inr n"
    and "execute D (tr0 @ [(CreateMonitorTable, Inr n)])
           (InsertMonitor (success_entry config execution_date run_id clk 0)) = Inr k"
  with tf emp eng
  show "load_to_postgres D P (Inr config) pages now_utc execution_date run_id clk tr0 =
          (Inr \<lparr>lr_run_id = run_id, lr_rows_processed = 0,
                lr_duration_sec = t_done clk - t_start clk, lr_status = ''success''\<rparr>,
           tr0 @ [(CreateMonitorTable, Inr n),
                  (InsertMonitor (success_entry config execution_date run_id clk 0), Inr k)])"
    by (simp add: load_to_postgres_def load_steps_def exec_trace success_entry_def
        create_pipeline_monitor_table_def log_pipeline_run_def Let_def)
qed

theorem load_of_empty_frame_is_success_witness:
  "transform_data test_pandas test_config empty_pages 7 =
     Inr (empty_frame [''event_type'', ''repo_id'', ''ingestion_timestamp'', ''source''], None) \<and>
   df_empty (empty_frame [''event_type'', ''repo_id'', ''ingestion_timestamp'', ''source'']
              :: tval frame) \<and>
   create_engine accepting_db = None \<and>
   execute accepting_db [] CreateMonitorTable = Inr 1 \<and>
   execute accepting_db [(CreateMonitorTable, Inr 1)]
     (InsertMonitor (success_entry test_config ''2024-06-10'' ''run-1'' test_clock 0)) = Inr 1 \<and>
   load_to_postgres accepting_db test_pandas (Inr test_config) empty_pages 7 ''2024-06-10''
       ''run-1'' test_clock [] =
     (Inr \<lparr>lr_run_id = ''run-1'', lr_rows_processed = 0, lr_duration_sec = 2,
           lr_status = ''success''\<rparr>,
      [(CreateMonitorTable, Inr 1),
       (InsertMonitor (success_entry test_config ''2024-06-10'' ''run-1'' test_clock 0), Inr 1)])"
proof -
  have tf: "transform_data test_pandas test_config empty_pages 7 =
     Inr (empty_frame [''event_type'', ''repo_id'', ''ingestion_timestamp'', ''source''], None)"
    by (simp add: transform_data_def empty_pages_def test_config_def)
  have emp: "df_empty (empty_frame [''event_type'', ''repo_id'', ''ingestion_timestamp'', ''source'']
              :: tval frame)"
    by (simp add: df_empty_def empty_frame_def)
  have eng: "create_engine accepting_db = None"
    by (simp add: accepting_db_def)
  have e1: "execute accepting_db [] CreateMonitorTable = Inr 1"
    by (simp add: accepting_db_def)
  have e2: "execute accepting_db [(CreateMonitorTable, Inr 1)]
     (InsertMonitor (success_entry test_config ''2024-06-10'' ''run-1'' test_clock 0)) = Inr 1"
    by (simp add: accepting_db_def)
  from load_of_empty_frame_is_success [OF tf emp eng, of "[]" "''2024-06-10''" "''run-1''" test_clock]
    e1 e2
  have "load_to_postgres accepting_db test_pandas (Inr test_config) empty_pages 7 ''2024-06-10''
       ''run-1'' test_clock [] =
     (Inr \<lparr>lr_run_id = ''run-1'', lr_rows_processed = 0, lr_duration_sec = 2,
           lr_status = ''success''\<rparr>,
      [(CreateMonitorTable, Inr 1),
       (InsertMonitor (success_entry test_config ''2024-06-10'' ''run-1'' test_clock 0), Inr 1)])"
    by (simp add: test_clock_def)
  with tf emp eng e1 e2 show ?thesis
    by simp
qed

section \<open>The fetcher: the rate limit\<close>














section \<open>The fetcher: when the loop stops\<close>

lemma iteration_answered:
  assumes "answered R config hdrs st data"
  shows "iteration R config hdrs out_dir secs st =
     (case handle_data config out_dir data (st\<lparr>requests := requests st + 1\<rparr>) of
        Next st2 \<Rightarrow> Next (rate_limit secs st2)
      | Break st2 \<Rightarrow> Break st2
      | Raise e st2 \<Rightarrow> Raise e st2)"
  using assms
  by (auto simp: answered_def iteration_def Let_def split: sum.splits reply.splits)



lemma handle_data_page:
  assumes "strategy config = ''page''"
  shows "handle_data config out_dir data st =
     (if py_truthy data
      then Next ((save_response out_dir data st)\<lparr>page_num := page_num st + 1\<rparr>)
      else Break (st\<lparr>has_more := False\<rparr>))"
proof -
  have "py_truthy data \<Longrightarrow> \<not> (case data of JArr xs \<Rightarrow> length xs = 0 | _ \<Rightarrow> False)"
    by (cases data) auto
  with assms show ?thesis
    by (auto simp: strategy_def handle_data_def split: option.splits)
qed




text \<open>A link that is absent at a segment of the path is \<^verbatim>\<open>None\<close>, whatever follows.\<close>

lemma walk_link_absent:
  "py_get v key = Inr JNull \<Longrightarrow> walk_link v (key # keys) = Inr JNull"
  by simp


text \<open>
  The whole loop under the page strategy, for a remote side whose answer to the \<open>n\<close>-th
  request is below 400 and decodes to \<open>body n\<close>, whatever is asked.
\<close>

lemma request_params_page:
  assumes "cfg_pagination config = Some pg" and "pg_type pg = ''page''"
    and "page_param pg = Some p"
  shows "request_params config st = Inr (AList.update p (JInt (page_num st)) (cfg_params config))"
  using assms by (simp add: request_params_def required_def Let_def)

lemma page_iteration:
  assumes page: "cfg_pagination config = Some pg" "pg_type pg = ''page''"
      "page_param pg = Some p"
    and reply: "\<forall>u params. session_get R (requests st) u params hdrs =
                  Response status_code (Inr data)"
    and ok: "status_code < 400"
  shows "iteration R config hdrs out_dir secs st =
     (if py_truthy data
      then Next (rate_limit secs
                   ((save_response out_dir data (st\<lparr>requests := requests st + 1\<rparr>))
                      \<lparr>page_num := page_num st + 1\<rparr>))
      else Break (st\<lparr>requests := requests st + 1, has_more := False\<rparr>))"
proof -
  have ans: "answered R config hdrs st data"
    using reply ok by (simp add: answered_def request_params_page [OF page])
  have str: "strategy config = ''page''"
    using page by (simp add: strategy_def)
  show ?thesis
    by (simp add: iteration_answered [OF ans] handle_data_page [OF str])
qed

lemma page_state_first:
  assumes "has_more st"
  shows "rate_limit secs
           ((save_response out_dir (body (requests st)) (st\<lparr>requests := requests st + 1\<rparr>))
              \<lparr>page_num := page_num st + 1\<rparr>) =
         page_state st out_dir secs body (Suc 0)"
  using assms
  by (simp add: rate_limit_def save_response_def page_state_def Let_def)

lemma page_state_next:
  "page_state (page_state st out_dir secs body (Suc 0)) out_dir secs body k =
   page_state st out_dir secs body (Suc k)"
  by (simp add: page_state_def map_upt_Suc replicate_append_same del: upt_Suc)

lemma page_loop:
  assumes page: "cfg_pagination config = Some pg" "pg_type pg = ''page''"
      "page_param pg = Some p"
  shows "\<forall>j \<le> k. \<forall>u params. session_get R (requests st + j) u params hdrs =
                      Response (status (requests st + j)) (Inr (body (requests st + j))) \<and>
                    status (requests st + j) < 400 \<Longrightarrow>
         \<forall>j < k. py_truthy (body (requests st + j)) \<Longrightarrow>
         \<not> py_truthy (body (requests st + k)) \<Longrightarrow>
         has_more st \<Longrightarrow>
         fetch_loop (Suc k + extra) (iteration R config hdrs out_dir secs) st =
           Some (Inr ((page_state st out_dir secs body k)
                        \<lparr>has_more := False, requests := requests st + k + 1\<rparr>))"
proof (induction k arbitrary: st)
  case 0
  then have it: "iteration R config hdrs out_dir secs st =
                   Break (st\<lparr>requests := requests st + 1, has_more := False\<rparr>)"
    using page_iteration [OF page, of R st hdrs "status (requests st)" "body (requests st)"]
    by simp
  have "page_state st out_dir secs body 0 = st"
    by (simp add: page_state_def)
  with 0 it show ?case
    by simp
next
  case (Suc k)
  let ?st1 = "page_state st out_dir secs body (Suc 0)"
  have r0: "\<forall>u params. session_get R (requests st) u params hdrs =
              Response (status (requests st)) (Inr (body (requests st)))"
    and s0: "status (requests st) < 400"
    using Suc.prems(1) [rule_format, of 0] by simp_all
  have t0: "py_truthy (body (requests st))"
    using Suc.prems(2) [rule_format, of 0] by simp
  have it: "iteration R config hdrs out_dir secs st = Next ?st1"
    using page_iteration [OF page r0 s0, of out_dir secs] t0 page_state_first [OF Suc.prems(4)]
    by simp
  have rq: "requests ?st1 = requests st + 1" and hm: "has_more ?st1"
    using Suc.prems(4) by (simp_all add: page_state_def)
  have a: "\<forall>j \<le> k. \<forall>u params. session_get R (requests ?st1 + j) u params hdrs =
                      Response (status (requests ?st1 + j)) (Inr (body (requests ?st1 + j))) \<and>
                    status (requests ?st1 + j) < 400"
  proof (intro allI impI)
    fix j u params
    assume "j \<le> k"
    then show "session_get R (requests ?st1 + j) u params hdrs =
                 Response (status (requests ?st1 + j)) (Inr (body (requests ?st1 + j))) \<and>
               status (requests ?st1 + j) < 400"
      using Suc.prems(1) [rule_format, of "Suc j"] by (simp add: rq)
  qed
  have b: "\<forall>j < k. py_truthy (body (requests ?st1 + j))"
  proof (intro allI impI)
    fix j
    assume "j < k"
    then show "py_truthy (body (requests ?st1 + j))"
      using Suc.prems(2) [rule_format, of "Suc j"] by (simp add: rq)
  qed
  have c: "\<not> py_truthy (body (requests ?st1 + k))"
    using Suc.prems(3) by (simp add: rq)
  from Suc.IH [OF a b c hm]
  have "fetch_loop (Suc k + extra) (iteration R config hdrs out_dir secs) ?st1 =
          Some (Inr ((page_state st out_dir secs body (Suc k))
                       \<lparr>has_more := False, requests := requests st + Suc k + 1\<rparr>))"
    by (simp add: page_state_next rq)
  with it Suc.prems(4) show ?case
    by simp
qed

lemma page_fetch_stops_at_first_empty_page:
  assumes page: "cfg_pagination config = Some pg" "pg_type pg = ''page''"
      "page_param pg = Some p"
    and pause: "sleep_time config = Inr secs"
    and auth: "auth_headers R (cfg_auth config) = Inr hdrs"
    and replies: "\<forall>j \<le> k. \<forall>u params. session_get R j u params hdrs =
                     Response (status j) (Inr (body j)) \<and> status j < 400"
    and full: "\<forall>j < k. py_truthy (body j)"
    and empty: "\<not> py_truthy (body k)"
  shows "\<exists>st. extract_api (Suc k + extra) R config (Some date) today = Some (Inr st) \<and>
           requests st = k + 1 \<and> \<not> has_more st \<and>
           map snd (written_files st) = map body [0..<k] \<and>
           saved_files st = map fst (written_files st) \<and>
           (date \<noteq> [] \<longrightarrow>
              saved_files st =
                map (\<lambda>j. [''data'', ''raw'', cfg_name config, date, response_name (1 + j)]) [0..<k])"
proof -
  let ?out = "[''data'', ''raw'', cfg_name config, if date = [] then today else date]"
  obtain st0 where st0: "extract_api (Suc k + extra) R config (Some date) today =
      fetch_loop (Suc k + extra) (iteration R config hdrs ?out secs) st0"
    and f: "saved_files st0 = []" "written_files st0 = []" "requests st0 = 0"
      "response_idx st0 = 1" "has_more st0"
    using pause auth by (simp add: extract_api_def Let_def)
  have "fetch_loop (Suc k + extra) (iteration R config hdrs ?out secs) st0 =
          Some (Inr ((page_state st0 ?out secs body k)
                       \<lparr>has_more := False, requests := requests st0 + k + 1\<rparr>))"
    using replies full empty f
    by (intro page_loop [OF page, where status = status and body = body]) simp_all
  with st0 f show ?thesis
    by (simp add: page_state_def comp_def)
qed



text \<open>
  The run of the repository's pagination test: two pages, then the empty page; two files
  are saved, numbered from 1, and the empty page is not.
\<close>

lemma two_pages_then_empty:
  "map_option written_files
     (final_state (extract_api 5 two_page_remote test_config (Some ''2024-06-10'') ''2024-06-11'')) =
     Some [(test_dir @ [''response_001.json''], JArr [JObj [(''id'', JInt 1)]]),
           (test_dir @ [''response_002.json''], JArr [JObj [(''id'', JInt 2)]])] \<and>
   map_option requests
     (final_state (extract_api 5 two_page_remote test_config (Some ''2024-06-10'') ''2024-06-11'')) =
     Some 3"
  by code_simp

end
